theory Spec2Isabelle
  imports Complex_Main
begin

section \<open>JavaScript numbers\<close>

text \<open>
  The money columns are DOUBLE PRECISION and the handlers compute with JavaScript
  numbers, so every sum, difference and quotient is rounded to the nearest IEEE 754
  binary64 value, ties to even. A number is a finite value, an infinity or NaN. The two
  zeros of the format are the one value \<open>Num 0\<close>: they are equal under \<open>===\<close>, print
  alike in JSON and differ only as divisors, and the one division of this code divides by
  a count. A finite number that the code can hold is a binary64 value (\<open>is_double\<close>);
  the operations are defined on every real, and they return binary64 values only.
\<close>

datatype number = Num real | PosInfinity | NegInfinity | NaN

text \<open>The number of binary digits of a natural number.\<close>

fun bitlen :: "nat \<Rightarrow> nat" where
  "bitlen n = (if n = 0 then 0 else Suc (bitlen (n div 2)))"

declare bitlen.simps [simp del]

text \<open>For \<open>q > 0\<close>, the exponent \<open>e\<close> with \<open>2 ^ e \<le> q < 2 ^ (e + 1)\<close>.\<close>

definition ilog2 :: "real \<Rightarrow> int" where
  "ilog2 q =
     (if 1 \<le> q then int (bitlen (nat \<lfloor>q\<rfloor>)) - 1
      else - int (bitlen (nat (\<lceil>1 / q\<rceil> - 1))))"

definition pow2 :: "int \<Rightarrow> real" where
  "pow2 k = (if 0 \<le> k then 2 ^ nat k else 1 / 2 ^ nat (- k))"

definition round_half_even :: "real \<Rightarrow> int" where
  "round_half_even s =
     (let f = \<lfloor>s\<rfloor>; r = s - of_int f
      in if r < 1 / 2 then f
         else if 1 / 2 < r then f + 1
         else if even f then f else f + 1)"

text \<open>
  Rounding to binary64: 53 significant bits, the exponent of a normal number between
  -1022 and 1023, gradual underflow below (the spacing stays \<open>2 ^ -1074\<close>), and overflow
  to an infinity when the rounded value reaches \<open>2 ^ 1024\<close>.
\<close>

definition round64 :: "real \<Rightarrow> number" where
  "round64 q =
     (if q = 0 then Num 0
      else
        let e = max (ilog2 \<bar>q\<bar>) (- 1022);
            u = pow2 (e - 52);
            n = round_half_even (\<bar>q\<bar> / u)
        in if 1024 \<le> e \<or> (e = 1023 \<and> n = 2 ^ 53)
           then (if 0 < q then PosInfinity else NegInfinity)
           else Num (sgn q * of_int n * u))"

definition is_double :: "number \<Rightarrow> bool" where
  "is_double x = (case x of Num q \<Rightarrow> round64 q = Num q | _ \<Rightarrow> True)"

text \<open>The operators \<open>+\<close>, unary and binary \<open>-\<close>, and \<open>/\<close> of JavaScript.\<close>

definition dadd :: "number \<Rightarrow> number \<Rightarrow> number" where
  "dadd x y =
     (case x of
        NaN \<Rightarrow> NaN
      | PosInfinity \<Rightarrow> (case y of NaN \<Rightarrow> NaN | NegInfinity \<Rightarrow> NaN | _ \<Rightarrow> PosInfinity)
      | NegInfinity \<Rightarrow> (case y of NaN \<Rightarrow> NaN | PosInfinity \<Rightarrow> NaN | _ \<Rightarrow> NegInfinity)
      | Num a \<Rightarrow> (case y of Num b \<Rightarrow> round64 (a + b) | _ \<Rightarrow> y))"

definition dneg :: "number \<Rightarrow> number" where
  "dneg x =
     (case x of
        Num a \<Rightarrow> Num (- a)
      | PosInfinity \<Rightarrow> NegInfinity
      | NegInfinity \<Rightarrow> PosInfinity
      | NaN \<Rightarrow> NaN)"

definition dsub :: "number \<Rightarrow> number \<Rightarrow> number" where
  "dsub x y = dadd x (dneg y)"

definition ddiv :: "number \<Rightarrow> number \<Rightarrow> number" where
  "ddiv x y =
     (case x of
        NaN \<Rightarrow> NaN
      | PosInfinity \<Rightarrow>
          (case y of Num b \<Rightarrow> (if 0 \<le> b then PosInfinity else NegInfinity) | _ \<Rightarrow> NaN)
      | NegInfinity \<Rightarrow>
          (case y of Num b \<Rightarrow> (if 0 \<le> b then NegInfinity else PosInfinity) | _ \<Rightarrow> NaN)
      | Num a \<Rightarrow>
          (case y of
             NaN \<Rightarrow> NaN
           | PosInfinity \<Rightarrow> Num 0
           | NegInfinity \<Rightarrow> Num 0
           | Num b \<Rightarrow>
               if b = 0
               then (if a = 0 then NaN else if 0 < a then PosInfinity else NegInfinity)
               else round64 (a / b)))"

section \<open>Data model\<close>

text \<open>
  The tables are the ones of the migration: \<open>Employee\<close> and \<open>Payroll\<close>. The eleven
  money columns have the same names in both tables, so they are one parent record that
  both rows extend. Columns that no handler below reads (age, phone, email,
  joiningDate, avatar, createdAt, updatedAt) are left out. The primary keys \<open>id\<close> are
  named \<open>eid\<close> and \<open>pid\<close>, and the employee's \<open>status\<close> column \<open>estatus\<close>, because a
  record field name is global.
\<close>

datatype EmployeeType = TEACHER | OFFICER | STAFF

datatype EmployeeStatus = ACTIVE | INACTIVE

datatype PayrollStatus = PAID | PENDING

record Compensation =
  basicSalary :: number
  houseRent :: number
  medical :: number
  transport :: number
  education :: number
  special :: number
  tax :: number
  providentFund :: number
  insurance :: number
  loan :: number
  other :: number

record Employee = Compensation +
  eid :: string
  name :: string
  designation :: string
  employeeType :: EmployeeType
  estatus :: EmployeeStatus

record Payroll = Compensation +
  pid :: string
  employeeId :: string
  month :: int
  year :: int
  grossSalary :: number
  netSalary :: number
  status :: PayrollStatus
  paidAt :: "nat option"

text \<open>The persistence collaborator: both tables in insertion order.\<close>

record DB =
  employees :: "Employee list"
  payrolls :: "Payroll list"

text \<open>
  The columns \<open>month\<close> and \<open>year\<close> of Payroll are INTEGER, 32 bits wide. A query or an
  insert that carries a value outside that range makes the client throw; the last
  sentence of its message, without the value it names, stands for the message.
\<close>

definition int32 :: "int \<Rightarrow> bool" where
  "int32 v = (- 2147483648 \<le> v \<and> v \<le> 2147483647)"

definition int4_message :: string where
  "int4_message = ''Unable to fit integer value into an INT4 (32-bit signed integer).''"

text \<open>
  A handler answers with a status code. The failing answers carry the message of the
  source; a 2xx answer is \<open>Inr\<close> of the payload. A 500 answer is the outer \<open>catch\<close>
  block; it is reached only where an operation of the model can throw. Failures of the
  persistence layer itself (connection loss) are outside the model.
\<close>

datatype failure = Http400 string | Http404 string | Http500 string

section \<open>Payroll controller: processing\<close>

text \<open>
  \<open>prisma.employee.findMany({ where })\<close> with \<open>where = { status: 'ACTIVE' }\<close>, narrowed
  by \<open>id in employeeIds\<close> only when the list is present and not empty.
\<close>

definition employee_findMany :: "string list option \<Rightarrow> Employee list \<Rightarrow> Employee list" where
  "employee_findMany employeeIds tbl =
     (case employeeIds of
        None \<Rightarrow> filter (\<lambda>e. estatus e = ACTIVE) tbl
      | Some ids \<Rightarrow>
          if length ids > 0
          then filter (\<lambda>e. estatus e = ACTIVE \<and> eid e \<in> set ids) tbl
          else filter (\<lambda>e. estatus e = ACTIVE) tbl)"

text \<open>
  \<open>prisma.payroll.findUnique\<close> on the compound key \<open>employeeId_month_year\<close>: \<open>Inl\<close> is
  the message of the error it throws.
\<close>

definition payroll_findUnique_period ::
  "Payroll list \<Rightarrow> string \<Rightarrow> int \<Rightarrow> int \<Rightarrow> string + Payroll option" where
  "payroll_findUnique_period tbl i m y =
     (if int32 m \<and> int32 y
      then Inr (find (\<lambda>p. employeeId p = i \<and> month p = m \<and> year p = y) tbl)
      else Inl int4_message)"

text \<open>
  The salary calculation and the \<open>data\<close> object of \<open>prisma.payroll.create\<close>. The five
  allowances are added from left to right, then the basic salary is added to their sum;
  likewise the deductions. The id is generated by the persistence layer and \<open>paidAt\<close> is
  not supplied, so it is null.
\<close>

definition payroll_data :: "Employee \<Rightarrow> int \<Rightarrow> int \<Rightarrow> string \<Rightarrow> Payroll" where
  "payroll_data employee m y newid =
     (let totalAllowances =
            dadd (dadd (dadd (dadd (houseRent employee) (medical employee))
                          (transport employee)) (education employee)) (special employee);
          totalDeductions =
            dadd (dadd (dadd (dadd (tax employee) (providentFund employee))
                          (insurance employee)) (loan employee)) (other employee);
          gross = dadd (basicSalary employee) totalAllowances;
          net = dsub gross totalDeductions
      in \<lparr> basicSalary = basicSalary employee,
           houseRent = houseRent employee,
           medical = medical employee,
           transport = transport employee,
           education = education employee,
           special = special employee,
           tax = tax employee,
           providentFund = providentFund employee,
           insurance = insurance employee,
           loan = loan employee,
           other = other employee,
           pid = newid,
           employeeId = eid employee,
           month = m,
           year = y,
           grossSalary = gross,
           netSalary = net,
           status = PENDING,
           paidAt = None \<rparr>)"

text \<open>
  \<open>prisma.payroll.create\<close>: a month or year outside the INTEGER range is refused, and
  the unique index on (employeeId, month, year) rejects a second row for the triple; the
  error's message is what the \<open>catch\<close> of the loop records. The id generator of the
  persistence layer is the parameter \<open>newId\<close>.
\<close>

definition payroll_create ::
  "(nat \<Rightarrow> string) \<Rightarrow> (string \<Rightarrow> Payroll) \<Rightarrow> Payroll list \<Rightarrow> string + (Payroll list \<times> Payroll)" where
  "payroll_create newId data tbl =
     (let payroll = data (newId (length tbl))
      in if \<not> (int32 (month payroll) \<and> int32 (year payroll)) then Inl int4_message
         else if \<exists>p \<in> set tbl. employeeId p = employeeId payroll \<and> month p = month payroll
                            \<and> year p = year payroll
         then Inl ''Unique constraint failed on the fields: (employeeId,month,year)''
         else Inr (tbl @ [payroll], payroll))"

record ProcessError =
  errEmployeeId :: string
  errEmployeeName :: string
  errMessage :: string

record ProcessResult =
  processed :: "Payroll list"
  errors :: "ProcessError list"

text \<open>
  One turn of \<open>for (const employee of employees)\<close>. The state is the payroll table
  together with the two arrays \<open>payrollRecords\<close> and \<open>errors\<close>. The lookup and the insert
  stand in one \<open>try\<close>: what either throws becomes an entry of \<open>errors\<close>.
\<close>

definition process_employee ::
  "(nat \<Rightarrow> string) \<Rightarrow> int \<Rightarrow> int \<Rightarrow> Employee
     \<Rightarrow> Payroll list \<times> Payroll list \<times> ProcessError list
     \<Rightarrow> Payroll list \<times> Payroll list \<times> ProcessError list" where
  "process_employee newId m y employee st =
     (case st of (tbl, payrollRecords, errs) \<Rightarrow>
        (case payroll_findUnique_period tbl (eid employee) m y of
           Inl msg \<Rightarrow>
             (tbl, payrollRecords,
              errs @ [\<lparr> errEmployeeId = eid employee, errEmployeeName = name employee,
                        errMessage = msg \<rparr>])
         | Inr (Some existing) \<Rightarrow>
             (tbl, payrollRecords,
              errs @ [\<lparr> errEmployeeId = eid employee, errEmployeeName = name employee,
                        errMessage = ''Payroll already processed for this period'' \<rparr>])
         | Inr None \<Rightarrow>
             (case payroll_create newId (payroll_data employee m y) tbl of
                Inr (tbl', payroll) \<Rightarrow> (tbl', payrollRecords @ [payroll], errs)
              | Inl msg \<Rightarrow>
                  (tbl, payrollRecords,
                   errs @ [\<lparr> errEmployeeId = eid employee, errEmployeeName = name employee,
                             errMessage = msg \<rparr>]))))"

fun process_loop ::
  "(nat \<Rightarrow> string) \<Rightarrow> int \<Rightarrow> int \<Rightarrow> Employee list
     \<Rightarrow> Payroll list \<times> Payroll list \<times> ProcessError list
     \<Rightarrow> Payroll list \<times> Payroll list \<times> ProcessError list" where
  "process_loop newId m y [] st = st"
| "process_loop newId m y (employee # rest) st =
     process_loop newId m y rest (process_employee newId m y employee st)"

text \<open>
  The handler of POST /api/payroll/process. \<open>month\<close> and \<open>year\<close> are the JSON numbers of
  the body (\<open>None\<close> when absent), taken to be integers that print in plain decimal
  notation; \<open>!month\<close> also holds of the number 0, and \<open>parseInt\<close> of such an integer is
  that integer.
\<close>

definition processPayroll ::
  "(nat \<Rightarrow> string) \<Rightarrow> int option \<Rightarrow> int option \<Rightarrow> string list option \<Rightarrow> DB
     \<Rightarrow> (failure + ProcessResult) \<times> DB" where
  "processPayroll newId m y employeeIds db =
     (case (m, y) of
        (Some mv, Some yv) \<Rightarrow>
          if mv = 0 \<or> yv = 0 then (Inl (Http400 ''Month and year are required''), db)
          else
            let emps = employee_findMany employeeIds (employees db)
            in if length emps = 0 then (Inl (Http404 ''No active employees found''), db)
               else (case process_loop newId mv yv emps (payrolls db, [], []) of
                       (tbl, payrollRecords, errs) \<Rightarrow>
                         (Inr \<lparr> processed = payrollRecords, errors = errs \<rparr>,
                          db \<lparr> payrolls := tbl \<rparr>))
      | _ \<Rightarrow> (Inl (Http400 ''Month and year are required''), db))"

section \<open>Payroll controller: mark as paid\<close>

text \<open>\<open>prisma.payroll.findUnique({ where: { id } })\<close>.\<close>

definition payroll_findUnique :: "Payroll list \<Rightarrow> string \<Rightarrow> Payroll option" where
  "payroll_findUnique tbl i = find (\<lambda>p. pid p = i) tbl"

text \<open>
  \<open>prisma.payroll.update({ where: { id }, data })\<close>: the row with the id is changed in
  place and returned; the call throws when there is no such row.
\<close>

fun payroll_update ::
  "string \<Rightarrow> (Payroll \<Rightarrow> Payroll) \<Rightarrow> Payroll list \<Rightarrow> (Payroll list \<times> Payroll) option" where
  "payroll_update i f [] = None"
| "payroll_update i f (p # ps) =
     (if pid p = i then Some (f p # ps, f p)
      else (case payroll_update i f ps of
              None \<Rightarrow> None
            | Some (ps', u) \<Rightarrow> Some (p # ps', u)))"

text \<open>The handler of PUT /api/payroll/:id/pay; \<open>now\<close> is the value of \<open>new Date()\<close>.\<close>

definition markPayrollAsPaid :: "string \<Rightarrow> nat \<Rightarrow> DB \<Rightarrow> (failure + Payroll) \<times> DB" where
  "markPayrollAsPaid i now db =
     (case payroll_findUnique (payrolls db) i of
        None \<Rightarrow> (Inl (Http404 ''Payroll record not found''), db)
      | Some payroll \<Rightarrow>
          if status payroll = PAID
          then (Inl (Http400 ''Payroll already marked as paid''), db)
          else (case payroll_update i (\<lambda>p. p \<lparr> status := PAID, paidAt := Some now \<rparr>)
                       (payrolls db) of
                  Some (tbl, updatedPayroll) \<Rightarrow> (Inr updatedPayroll, db \<lparr> payrolls := tbl \<rparr>)
                | None \<Rightarrow> (Inl (Http500 ''Failed to mark payroll as paid''), db)))"

text \<open>
  \<open>prisma.payroll.updateMany({ where, data })\<close>: every row that satisfies \<open>where\<close> is
  changed, and the number of such rows is returned.
\<close>

definition payroll_updateMany ::
  "(Payroll \<Rightarrow> bool) \<Rightarrow> (Payroll \<Rightarrow> Payroll) \<Rightarrow> Payroll list \<Rightarrow> Payroll list \<times> nat" where
  "payroll_updateMany wh f tbl = (map (\<lambda>p. if wh p then f p else p) tbl, length (filter wh tbl))"

text \<open>The handler of PUT /api/payroll/bulk-pay; the payload is \<open>updatedCount\<close>.\<close>

definition bulkMarkAsPaid :: "string list option \<Rightarrow> nat \<Rightarrow> DB \<Rightarrow> (failure + nat) \<times> DB" where
  "bulkMarkAsPaid payrollIds now db =
     (case payrollIds of
        None \<Rightarrow> (Inl (Http400 ''Payroll IDs are required''), db)
      | Some ids \<Rightarrow>
          if length ids = 0 then (Inl (Http400 ''Payroll IDs are required''), db)
          else (case payroll_updateMany (\<lambda>p. pid p \<in> set ids \<and> status p = PENDING)
                       (\<lambda>p. p \<lparr> status := PAID, paidAt := Some now \<rparr>) (payrolls db) of
                  (tbl, n) \<Rightarrow> (Inr n, db \<lparr> payrolls := tbl \<rparr>)))"

section \<open>Payroll service\<close>

text \<open>
  \<open>PayrollService.processPayroll\<close> throws instead of answering; the exceptions are values.
  The service reads \<open>employee.allowances\<close> and \<open>employee.deductions\<close> as objects and hands
  them to \<open>Object.values\<close>, which throws a TypeError on \<open>undefined\<close>.
\<close>

datatype exn = Error string | TypeError | PrismaClientValidationError | PrismaClientError string

type_synonym jsobject = "(string \<times> number) list"

definition Object_values :: "jsobject option \<Rightarrow> exn + number list" where
  "Object_values obj = (case obj of None \<Rightarrow> Inl TypeError | Some kvs \<Rightarrow> Inr (map snd kvs))"

text \<open>
  A row of the Employee table has no column \<open>allowances\<close> or \<open>deductions\<close> (the
  migration gives it the ten flat columns), so both properties of a row that
  \<open>prisma.employee.findUnique\<close> returns are \<open>undefined\<close>.
\<close>

definition row_allowances :: "Employee \<Rightarrow> jsobject option" where
  "row_allowances employee = None"

definition row_deductions :: "Employee \<Rightarrow> jsobject option" where
  "row_deductions employee = None"

definition calculateGrossSalary :: "Employee \<Rightarrow> exn + number" where
  "calculateGrossSalary employee =
     (case Object_values (row_allowances employee) of
        Inl x \<Rightarrow> Inl x
      | Inr vals \<Rightarrow>
          Inr (dadd (basicSalary employee) (foldl (\<lambda>sum val. dadd sum val) (Num 0) vals)))"

definition calculateTotalDeductions :: "Employee \<Rightarrow> exn + number" where
  "calculateTotalDeductions employee =
     (case Object_values (row_deductions employee) of
        Inl x \<Rightarrow> Inl x
      | Inr vals \<Rightarrow> Inr (foldl (\<lambda>sum val. dadd sum val) (Num 0) vals))"

text \<open>The \<open>data\<close> object that the service passes to \<open>this.create\<close>.\<close>

record ServicePayrollData =
  dEmployeeId :: string
  dEmployeeName :: string
  dEmployeeType :: EmployeeType
  dDesignation :: string
  dMonth :: int
  dYear :: int
  dBasicSalary :: number
  dAllowances :: jsobject
  dDeductions :: jsobject
  dGrossSalary :: number
  dNetSalary :: number
  dStatus :: PayrollStatus
  dPaidAt :: "nat option"

definition service_data ::
  "Employee \<Rightarrow> string \<Rightarrow> int \<Rightarrow> int \<Rightarrow> number \<Rightarrow> number \<Rightarrow> nat \<Rightarrow> ServicePayrollData" where
  "service_data employee i m y gross net now =
     \<lparr> dEmployeeId = i,
       dEmployeeName = name employee,
       dEmployeeType = employeeType employee,
       dDesignation = designation employee,
       dMonth = m,
       dYear = y,
       dBasicSalary = basicSalary employee,
       dAllowances = (case row_allowances employee of None \<Rightarrow> [] | Some obj \<Rightarrow> obj),
       dDeductions = (case row_deductions employee of None \<Rightarrow> [] | Some obj \<Rightarrow> obj),
       dGrossSalary = gross,
       dNetSalary = net,
       dStatus = PAID,
       dPaidAt = Some now \<rparr>"

text \<open>
  \<open>BaseService.create\<close> is \<open>prisma.payroll.create({ data })\<close>. This data object names
  fields that the Payroll table does not have (employeeName, employeeType, designation,
  allowances, deductions) and lacks its ten required allowance and deduction columns, so
  the client rejects the call.
\<close>

definition service_create :: "ServicePayrollData \<Rightarrow> Payroll list \<Rightarrow> exn + (Payroll list \<times> Payroll)" where
  "service_create d tbl = Inl PrismaClientValidationError"

definition employee_findUnique :: "Employee list \<Rightarrow> string \<Rightarrow> Employee option" where
  "employee_findUnique tbl i = find (\<lambda>e. eid e = i) tbl"

text \<open>\<open>this.model.findFirst({ where: { employeeId, month, year } })\<close>.\<close>

definition payroll_findFirst_period ::
  "Payroll list \<Rightarrow> string \<Rightarrow> int \<Rightarrow> int \<Rightarrow> exn + Payroll option" where
  "payroll_findFirst_period tbl i m y =
     (if int32 m \<and> int32 y
      then Inr (find (\<lambda>p. employeeId p = i \<and> month p = m \<and> year p = y) tbl)
      else Inl (PrismaClientError int4_message))"

definition PayrollService_processPayroll ::
  "string \<Rightarrow> int \<Rightarrow> int \<Rightarrow> nat \<Rightarrow> DB \<Rightarrow> (exn + Payroll) \<times> DB" where
  "PayrollService_processPayroll i m y now db =
     (case payroll_findFirst_period (payrolls db) i m y of
        Inl x \<Rightarrow> (Inl x, db)
      | Inr (Some existingPayroll) \<Rightarrow>
          (Inl (Error ''Payroll already processed for this period''), db)
      | Inr None \<Rightarrow>
          (case employee_findUnique (employees db) i of
             None \<Rightarrow> (Inl (Error ''Employee not found''), db)
           | Some employee \<Rightarrow>
               (case calculateGrossSalary employee of
                  Inl x \<Rightarrow> (Inl x, db)
                | Inr gross \<Rightarrow>
                    (case calculateTotalDeductions employee of
                       Inl x \<Rightarrow> (Inl x, db)
                     | Inr totalDeductions \<Rightarrow>
                         (case service_create
                                 (service_data employee i m y gross
                                    (dsub gross totalDeductions) now)
                                 (payrolls db) of
                            Inl x \<Rightarrow> (Inl x, db)
                          | Inr (tbl, payroll) \<Rightarrow> (Inr payroll, db \<lparr> payrolls := tbl \<rparr>))))))"

section \<open>Reports\<close>

text \<open>
  A JavaScript \<open>Map\<close> keeps its keys in insertion order: an association list in which
  \<open>set\<close> replaces the value of a present key where it stands and appends a new key.
\<close>

definition Map_has :: "('k \<times> 'v) list \<Rightarrow> 'k \<Rightarrow> bool" where
  "Map_has mp k = (k \<in> set (map fst mp))"

definition Map_get :: "('k \<times> 'v) list \<Rightarrow> 'k \<Rightarrow> 'v option" where
  "Map_get mp k = map_of mp k"

fun Map_set :: "('k \<times> 'v) list \<Rightarrow> 'k \<Rightarrow> 'v \<Rightarrow> ('k \<times> 'v) list" where
  "Map_set [] k v = [(k, v)]"
| "Map_set ((k', v') # mp) k v =
     (if k' = k then (k, v) # mp else (k', v') # Map_set mp k v)"

text \<open>
  \<open>prisma.payroll.findMany\<close> for one period; it throws when month or year is outside the
  INTEGER range. With \<open>include: { employee }\<close> each payroll comes with the employee its
  foreign key refers to.
\<close>

definition payroll_findMany_period :: "Payroll list \<Rightarrow> int \<Rightarrow> int \<Rightarrow> string + Payroll list" where
  "payroll_findMany_period tbl m y =
     (if int32 m \<and> int32 y then Inr (filter (\<lambda>p. month p = m \<and> year p = y) tbl)
      else Inl int4_message)"

definition include_employee :: "Employee list \<Rightarrow> Payroll list \<Rightarrow> (Payroll \<times> Employee) list" where
  "include_employee emps ps =
     List.map_filter (\<lambda>p. map_option (Pair p) (employee_findUnique emps (employeeId p))) ps"

text \<open>
  The group objects of the two reports share four fields. The key of a group
  (\<open>employeeType\<close>, \<open>designation\<close>) is the first component of its entry in the map. A
  count is a natural number: \<open>count++\<close> is exact as long as there are fewer than
  \<open>2 ^ 53\<close> rows.
\<close>

record GroupTotals =
  count :: nat
  totalBasicSalary :: number
  totalGrossSalary :: number
  totalNetSalary :: number

record TypeData = GroupTotals +
  totalAllowances :: number
  totalDeductions :: number

definition type_step ::
  "(EmployeeType \<times> TypeData) list \<Rightarrow> Payroll \<times> Employee \<Rightarrow> (EmployeeType \<times> TypeData) list" where
  "type_step typeMap row =
     (case row of (payroll, employee) \<Rightarrow>
        let ty = employeeType employee;
            typeMap1 =
              (if \<not> Map_has typeMap ty
               then Map_set typeMap ty
                      \<lparr> count = 0, totalBasicSalary = Num 0, totalGrossSalary = Num 0,
                        totalNetSalary = Num 0, totalAllowances = Num 0,
                        totalDeductions = Num 0 \<rparr>
               else typeMap)
        in (case Map_get typeMap1 ty of
              None \<Rightarrow> typeMap1
            | Some typeData \<Rightarrow>
                Map_set typeMap1 ty
                  (typeData
                     \<lparr> count := count typeData + 1,
                       totalBasicSalary := dadd (totalBasicSalary typeData) (basicSalary payroll),
                       totalAllowances := dadd (totalAllowances typeData)
                         (dadd (dadd (dadd (dadd (houseRent payroll) (medical payroll))
                                        (transport payroll)) (education payroll))
                            (special payroll)),
                       totalDeductions := dadd (totalDeductions typeData)
                         (dadd (dadd (dadd (dadd (tax payroll) (providentFund payroll))
                                        (insurance payroll)) (loan payroll))
                            (other payroll)),
                       totalGrossSalary := dadd (totalGrossSalary typeData) (grossSalary payroll),
                       totalNetSalary := dadd (totalNetSalary typeData) (netSalary payroll) \<rparr>)))"

text \<open>
  \<open>getSalaryReportByType\<close> of report.controller.ts. Query parameters are taken after
  \<open>parseInt\<close>; \<open>None\<close> is an absent (or empty) parameter. The payload is the period
  and the report; what \<open>findMany\<close> throws ends in the \<open>catch\<close> of the handler.
\<close>

definition getSalaryReportByType ::
  "int option \<Rightarrow> int option \<Rightarrow> DB \<Rightarrow> failure + ((int \<times> int) \<times> (EmployeeType \<times> TypeData) list)" where
  "getSalaryReportByType m y db =
     (case (m, y) of
        (Some mv, Some yv) \<Rightarrow>
          (case payroll_findMany_period (payrolls db) mv yv of
             Inl msg \<Rightarrow> Inl (Http500 ''Failed to generate salary report'')
           | Inr ps \<Rightarrow>
               let rows = include_employee (employees db) ps
               in Inr ((mv, yv), foldl type_step [] rows))
      | _ \<Rightarrow> Inl (Http400 ''Month and year are required''))"

record DesigData = GroupTotals +
  averageSalary :: number

definition desig_step ::
  "(string \<times> DesigData) list \<Rightarrow> Payroll \<times> Employee \<Rightarrow> (string \<times> DesigData) list" where
  "desig_step desigMap row =
     (case row of (payroll, employee) \<Rightarrow>
        let dsg = designation employee;
            desigMap1 =
              (if \<not> Map_has desigMap dsg
               then Map_set desigMap dsg
                      \<lparr> count = 0, totalBasicSalary = Num 0, totalGrossSalary = Num 0,
                        totalNetSalary = Num 0, averageSalary = Num 0 \<rparr>
               else desigMap)
        in (case Map_get desigMap1 dsg of
              None \<Rightarrow> desigMap1
            | Some desigData \<Rightarrow>
                Map_set desigMap1 dsg
                  (desigData
                     \<lparr> count := count desigData + 1,
                       totalBasicSalary := dadd (totalBasicSalary desigData) (basicSalary payroll),
                       totalGrossSalary := dadd (totalGrossSalary desigData) (grossSalary payroll),
                       totalNetSalary := dadd (totalNetSalary desigData) (netSalary payroll) \<rparr>)))"

text \<open>
  \<open>getDesignationReport\<close> of report.controller.ts ends with a \<open>map\<close> whose arrow
  function is \<open>item.totalNetSalary / item.count\<close>.
\<close>

definition withAverage :: "string \<times> DesigData \<Rightarrow> string \<times> DesigData" where
  "withAverage entry =
     (case entry of (k, item) \<Rightarrow>
        (k, item \<lparr> averageSalary := ddiv (totalNetSalary item) (Num (real (count item))) \<rparr>))"

definition getDesignationReport ::
  "int option \<Rightarrow> int option \<Rightarrow> DB \<Rightarrow> failure + ((int \<times> int) \<times> (string \<times> DesigData) list)" where
  "getDesignationReport m y db =
     (case (m, y) of
        (Some mv, Some yv) \<Rightarrow>
          (case payroll_findMany_period (payrolls db) mv yv of
             Inl msg \<Rightarrow> Inl (Http500 ''Failed to generate designation report'')
           | Inr ps \<Rightarrow>
               let rows = include_employee (employees db) ps
               in Inr ((mv, yv), map withAverage (foldl desig_step [] rows)))
      | _ \<Rightarrow> Inl (Http400 ''Month and year are required''))"

text \<open>
  \<open>getMonthlySummary\<close> of reports.controller.ts: the loop
  \<open>for (let month = 1; month <= 12; month++)\<close> with one \<open>findMany\<close> and three
  \<open>reduce\<close> calls per month. \<open>None\<close> is the loop left by what \<open>findMany\<close> throws.
\<close>

record MonthlySummary =
  monthNo :: int
  totalEmployees :: nat
  totalBasic :: number
  totalGross :: number
  totalNet :: number

definition monthly_entry :: "int \<Rightarrow> Payroll list \<Rightarrow> MonthlySummary" where
  "monthly_entry m ps =
     \<lparr> monthNo = m,
       totalEmployees = length ps,
       totalBasic = foldl (\<lambda>sum p. dadd sum (basicSalary p)) (Num 0) ps,
       totalGross = foldl (\<lambda>sum p. dadd sum (grossSalary p)) (Num 0) ps,
       totalNet = foldl (\<lambda>sum p. dadd sum (netSalary p)) (Num 0) ps \<rparr>"

function monthly_loop ::
  "Payroll list \<Rightarrow> int \<Rightarrow> int \<Rightarrow> MonthlySummary list \<Rightarrow> MonthlySummary list option" where
  "monthly_loop tbl y m monthlyData =
     (if m \<le> 12
      then (case payroll_findMany_period tbl m y of
              Inl msg \<Rightarrow> None
            | Inr ps \<Rightarrow> monthly_loop tbl y (m + 1) (monthlyData @ [monthly_entry m ps]))
      else Some monthlyData)"
  by pat_completeness auto
termination
  by (relation "measure (\<lambda>(tbl, y, m, monthlyData). nat (13 - m))") auto

definition getMonthlySummary :: "int option \<Rightarrow> DB \<Rightarrow> failure + MonthlySummary list" where
  "getMonthlySummary y db =
     (case y of
        None \<Rightarrow> Inl (Http400 ''Year is required'')
      | Some yv \<Rightarrow>
          (case monthly_loop (payrolls db) yv 1 [] of
             None \<Rightarrow> Inl (Http500 ''Failed to fetch monthly summary'')
           | Some monthlyData \<Rightarrow> Inr monthlyData))"

section \<open>Vocabulary of the properties and sample data\<close>

text \<open>
  The entries that the loop records: for an employee whose period is already there, and
  for an employee whose lookup was refused because month or year is out of range.
\<close>

definition already :: "Employee \<Rightarrow> ProcessError" where
  "already e = \<lparr> errEmployeeId = eid e, errEmployeeName = name e,
                 errMessage = ''Payroll already processed for this period'' \<rparr>"

definition out_of_range :: "Employee \<Rightarrow> ProcessError" where
  "out_of_range e = \<lparr> errEmployeeId = eid e, errEmployeeName = name e,
                      errMessage = int4_message \<rparr>"

text \<open>The table holds a payroll for the triple (employee, month, year).\<close>

definition has_period :: "Payroll list \<Rightarrow> string \<Rightarrow> int \<Rightarrow> int \<Rightarrow> bool" where
  "has_period tbl i m y = (\<exists>p \<in> set tbl. employeeId p = i \<and> month p = m \<and> year p = y)"

text \<open>The payrolls of one period, as a query for it selects them.\<close>

definition period_rows :: "Payroll list \<Rightarrow> int \<Rightarrow> int \<Rightarrow> Payroll list" where
  "period_rows tbl m y = filter (\<lambda>p. month p = m \<and> year p = y) tbl"

text \<open>The payroll refers to the employee and carries a copy of its eleven money columns.\<close>

definition snapshot_of :: "Employee \<Rightarrow> Payroll \<Rightarrow> bool" where
  "snapshot_of e p =
     (employeeId p = eid e \<and> basicSalary p = basicSalary e \<and> houseRent p = houseRent e
      \<and> medical p = medical e \<and> transport p = transport e \<and> education p = education e
      \<and> special p = special e \<and> tax p = tax e \<and> providentFund p = providentFund e
      \<and> insurance p = insurance e \<and> loan p = loan e \<and> other p = other e)"

text \<open>
  \<open>a + b + c + d + e\<close> as JavaScript evaluates it, from left to right, and the whole
  expressions of the gross and the net salary in the order of the handler.
\<close>

definition sum5 :: "number \<Rightarrow> number \<Rightarrow> number \<Rightarrow> number \<Rightarrow> number \<Rightarrow> number" where
  "sum5 a b c d e = dadd (dadd (dadd (dadd a b) c) d) e"

definition gross_of :: "Employee \<Rightarrow> number" where
  "gross_of e =
     dadd (basicSalary e) (sum5 (houseRent e) (medical e) (transport e) (education e) (special e))"

definition net_of :: "Employee \<Rightarrow> number" where
  "net_of e =
     dsub (gross_of e) (sum5 (tax e) (providentFund e) (insurance e) (loan e) (other e))"

text \<open>
  The value of a finite number, and the numbers that are whole. Sums and differences of
  whole numbers below \<open>2 ^ 53\<close> in magnitude are exact. An employee has whole amounts
  when the eleven money columns are whole, not negative, and add up to less than \<open>2 ^ 53\<close>.
\<close>

definition val :: "number \<Rightarrow> real" where
  "val x = (case x of Num q \<Rightarrow> q | _ \<Rightarrow> 0)"

definition whole :: "number \<Rightarrow> bool" where
  "whole x = (case x of Num q \<Rightarrow> of_int \<lfloor>q\<rfloor> = q | _ \<Rightarrow> False)"

definition amounts :: "Employee \<Rightarrow> number list" where
  "amounts e =
     [basicSalary e, houseRent e, medical e, transport e, education e, special e,
      tax e, providentFund e, insurance e, loan e, other e]"

definition whole_amounts :: "Employee \<Rightarrow> bool" where
  "whole_amounts e =
     (list_all (\<lambda>x. whole x \<and> 0 \<le> val x) (amounts e) \<and> sum_list (map val (amounts e)) < 2 ^ 53)"

text \<open>
  Sample rows: the first teacher of the seed script, a clerk whose loan deduction exceeds
  the gross salary, and an inactive officer.
\<close>

definition sample_professor :: Employee where
  "sample_professor =
     \<lparr> basicSalary = Num 80000, houseRent = Num 20000, medical = Num 5000,
       transport = Num 3000, education = Num 2000, special = Num 5000, tax = Num 12000,
       providentFund = Num 8000, insurance = Num 2000, loan = Num 0, other = Num 0,
       eid = ''e1'', name = ''Dr. Sarah Johnson'', designation = ''Professor'',
       employeeType = TEACHER, estatus = ACTIVE \<rparr>"

definition sample_clerk :: Employee where
  "sample_clerk =
     \<lparr> basicSalary = Num 1000, houseRent = Num 0, medical = Num 0, transport = Num 0,
       education = Num 0, special = Num 0, tax = Num 0, providentFund = Num 0,
       insurance = Num 0, loan = Num 5000, other = Num 0,
       eid = ''e2'', name = ''Tom Clerk'', designation = ''Clerk'',
       employeeType = STAFF, estatus = ACTIVE \<rparr>"

definition sample_retired :: Employee where
  "sample_retired =
     \<lparr> basicSalary = Num 50000, houseRent = Num 0, medical = Num 0, transport = Num 0,
       education = Num 0, special = Num 0, tax = Num 0, providentFund = Num 0,
       insurance = Num 0, loan = Num 0, other = Num 0,
       eid = ''e3'', name = ''Ann Former'', designation = ''Registrar'',
       employeeType = OFFICER, estatus = INACTIVE \<rparr>"

definition sample_db :: DB where
  "sample_db = \<lparr> employees = [sample_professor, sample_clerk, sample_retired], payrolls = [] \<rparr>"

definition sample_ids :: "nat \<Rightarrow> string" where
  "sample_ids n = (if n = 0 then ''p0'' else if n = 1 then ''p1'' else ''p2'')"

text \<open>The store after March 2025 has been processed on \<open>sample_db\<close>.\<close>

definition sample_db1 :: DB where
  "sample_db1 =
     \<lparr> employees = [sample_professor, sample_clerk, sample_retired],
       payrolls = [payroll_data sample_professor 3 2025 ''p0'',
                   payroll_data sample_clerk 3 2025 ''p1''] \<rparr>"

definition sample_db_inactive :: DB where
  "sample_db_inactive = \<lparr> employees = [sample_retired], payrolls = [] \<rparr>"

text \<open>The transition of mark-as-paid, and stores in which it has happened.\<close>

definition paid_at :: "nat \<Rightarrow> Payroll \<Rightarrow> Payroll" where
  "paid_at now p = p \<lparr> status := PAID, paidAt := Some now \<rparr>"

definition sample_p0 :: Payroll where
  "sample_p0 = payroll_data sample_professor 3 2025 ''p0''"

definition sample_p1 :: Payroll where
  "sample_p1 = payroll_data sample_clerk 3 2025 ''p1''"

definition sample_db2 :: DB where
  "sample_db2 =
     \<lparr> employees = [sample_professor, sample_clerk, sample_retired],
       payrolls = [paid_at 100 sample_p0, sample_p1] \<rparr>"

definition sample_db3 :: DB where
  "sample_db3 =
     \<lparr> employees = [sample_professor, sample_clerk, sample_retired],
       payrolls = [paid_at 100 sample_p0, paid_at 200 sample_p1] \<rparr>"

text \<open>
  Amounts with cents: the binary64 values that the literals 0.1, 0.2, 0.3 and 0.4 denote,
  an employee paid in such amounts, and three employees whose net salaries are 0.1, 0.1
  and 0.4.
\<close>

definition d01 :: number where
  "d01 = Num (3602879701896397 / 36028797018963968)"

definition d02 :: number where
  "d02 = Num (3602879701896397 / 18014398509481984)"

definition d03 :: number where
  "d03 = Num (5404319552844595 / 18014398509481984)"

definition d04 :: number where
  "d04 = Num (3602879701896397 / 9007199254740992)"

definition cents_employee :: "string \<Rightarrow> EmployeeType \<Rightarrow> number \<Rightarrow> number \<Rightarrow> number \<Rightarrow> Employee" where
  "cents_employee i ty basic rent med =
     \<lparr> basicSalary = basic, houseRent = rent, medical = med, transport = Num 0,
       education = Num 0, special = Num 0, tax = Num 0, providentFund = Num 0,
       insurance = Num 0, loan = Num 0, other = Num 0,
       eid = i, name = ''Casual Worker'', designation = ''Assistant'',
       employeeType = ty, estatus = ACTIVE \<rparr>"

definition cents_db :: DB where
  "cents_db = \<lparr> employees = [cents_employee ''c1'' STAFF d01 d02 d03], payrolls = [] \<rparr>"

definition cents_net :: "string \<Rightarrow> string \<Rightarrow> number \<Rightarrow> Payroll" where
  "cents_net i e net =
     \<lparr> basicSalary = net, houseRent = Num 0, medical = Num 0, transport = Num 0,
       education = Num 0, special = Num 0, tax = Num 0, providentFund = Num 0,
       insurance = Num 0, loan = Num 0, other = Num 0,
       pid = i, employeeId = e, month = 3, year = 2025,
       grossSalary = net, netSalary = net, status = PENDING, paidAt = None \<rparr>"

definition cents_report_db :: DB where
  "cents_report_db =
     \<lparr> employees = [cents_employee ''t1'' TEACHER d01 (Num 0) (Num 0),
                    cents_employee ''s1'' STAFF d01 (Num 0) (Num 0),
                    cents_employee ''t2'' TEACHER d04 (Num 0) (Num 0)],
       payrolls = [cents_net ''q0'' ''t1'' d01, cents_net ''q1'' ''s1'' d01,
                   cents_net ''q2'' ''t2'' d04] \<rparr>"

text \<open>
  Grouping: the step of a report ensures the key, then adds the record to the group under
  it. \<open>upsert\<close> is that step in one piece, and \<open>group_sum\<close> adds one field over all
  groups.
\<close>

definition upsert :: "'v \<Rightarrow> ('v \<Rightarrow> 'v) \<Rightarrow> ('k \<times> 'v) list \<Rightarrow> 'k \<Rightarrow> ('k \<times> 'v) list" where
  "upsert z b mp k =
     (case Map_get mp k of None \<Rightarrow> mp @ [(k, b z)] | Some d \<Rightarrow> Map_set mp k (b d))"

definition group_sum :: "('v \<Rightarrow> 'a::comm_monoid_add) \<Rightarrow> ('k \<times> 'v) list \<Rightarrow> 'a" where
  "group_sum g mp = sum_list (map (\<lambda>entry. g (snd entry)) mp)"

definition months :: "int list" where
  "months = [1, 2, 3, 4, 5, 6, 7, 8, 9, 10, 11, 12]"

text \<open>The two reports of the sample store for March 2025.\<close>

definition sample_type_report :: "(EmployeeType \<times> TypeData) list" where
  "sample_type_report =
     [(TEACHER, \<lparr> count = 1, totalBasicSalary = Num 80000, totalGrossSalary = Num 115000,
                  totalNetSalary = Num 93000, totalAllowances = Num 35000,
                  totalDeductions = Num 22000 \<rparr>),
      (STAFF, \<lparr> count = 1, totalBasicSalary = Num 1000, totalGrossSalary = Num 1000,
                totalNetSalary = Num (- 4000), totalAllowances = Num 0,
                totalDeductions = Num 5000 \<rparr>)]"

definition sample_desig_report :: "(string \<times> DesigData) list" where
  "sample_desig_report =
     [(''Professor'', \<lparr> count = 1, totalBasicSalary = Num 80000, totalGrossSalary = Num 115000,
                        totalNetSalary = Num 93000, averageSalary = Num 93000 \<rparr>),
      (''Clerk'', \<lparr> count = 1, totalBasicSalary = Num 1000, totalGrossSalary = Num 1000,
                    totalNetSalary = Num (- 4000), averageSalary = Num (- 4000) \<rparr>)]"

text \<open>The payroll that processing creates for the employee paid in cents.\<close>

definition cents_payroll :: Payroll where
  "cents_payroll = payroll_data (cents_employee ''c1'' STAFF d01 d02 d03) 3 2025 ''p0''"

text \<open>The report by type of the store with cents for March 2025.\<close>

definition cents_type_report :: "(EmployeeType \<times> TypeData) list" where
  "cents_type_report =
     [(TEACHER, \<lparr> count = 2, totalBasicSalary = Num (1 / 2), totalGrossSalary = Num (1 / 2),
                  totalNetSalary = Num (1 / 2), totalAllowances = Num 0,
                  totalDeductions = Num 0 \<rparr>),
      (STAFF, \<lparr> count = 1, totalBasicSalary = d01, totalGrossSalary = d01,
                totalNetSalary = d01, totalAllowances = Num 0, totalDeductions = Num 0 \<rparr>)]"

section \<open>Numbers: whole numbers are exact\<close>

lemma bitlen_bounds: "0 < n \<Longrightarrow> 2 ^ (bitlen n - 1) \<le> n \<and> n < 2 ^ bitlen n"
proof (induction n rule: bitlen.induct)
  case (1 n)
  show ?case
  proof (cases "n div 2 = 0")
    case True
    with 1(2) have "n = 1" by (simp add: div_eq_0_iff)
    then show ?thesis by (simp add: bitlen.simps)
  next
    case False
    then have pos: "0 < n div 2" by simp
    from 1(2) have nz: "n \<noteq> 0" by simp
    from 1(1)[OF nz pos]
    have ih: "2 ^ (bitlen (n div 2) - 1) \<le> n div 2" "n div 2 < 2 ^ bitlen (n div 2)"
      by simp_all
    have bl: "bitlen n = Suc (bitlen (n div 2))" using nz by (simp add: bitlen.simps)
    have b1: "0 < bitlen (n div 2)" using pos by (simp add: bitlen.simps)
    then have "(2::nat) ^ (bitlen n - 1) = 2 * 2 ^ (bitlen (n div 2) - 1)"
      using bl by (cases "bitlen (n div 2)") simp_all
    also have "\<dots> \<le> 2 * (n div 2)" using ih(1) by simp
    also have "\<dots> \<le> n" by simp
    finally have lo: "2 ^ (bitlen n - 1) \<le> n" .
    have "n < 2 * (n div 2) + 2" by presburger
    also have "\<dots> \<le> 2 * 2 ^ bitlen (n div 2)" using ih(2) by simp
    finally have "n < 2 ^ bitlen n" using bl by simp
    with lo show ?thesis by simp
  qed
qed

lemma bitlen_le: "n < 2 ^ k \<Longrightarrow> bitlen n \<le> k"
proof (rule ccontr)
  assume n: "n < 2 ^ k" and "\<not> bitlen n \<le> k"
  then have k: "k \<le> bitlen n - 1" and pos: "0 < n"
    by (auto simp: bitlen.simps intro: ccontr)
  from bitlen_bounds[OF pos] have "2 ^ (bitlen n - 1) \<le> n" by simp
  moreover have "(2::nat) ^ k \<le> 2 ^ (bitlen n - 1)" using k by (simp add: power_increasing)
  ultimately show False using n by linarith
qed

lemma round_half_even_int: "round_half_even (of_int z) = z"
  by (simp add: round_half_even_def)

text \<open>An integer below \<open>2 ^ 53\<close> in magnitude is a binary64 value: rounding keeps it.\<close>

lemma round64_int:
  assumes "\<bar>n\<bar> < 2 ^ 53"
  shows "round64 (of_int n) = Num (of_int n)"
proof (cases "n = 0")
  case True
  then show ?thesis by (simp add: round64_def)
next
  case False
  let ?a = "nat \<bar>n\<bar>"
  have apos: "0 < ?a" using False by simp
  have "?a < 2 ^ 53" using assms by (simp add: nat_less_iff)
  then have le: "bitlen ?a \<le> 53" by (rule bitlen_le)
  have ge: "1 \<le> bitlen ?a" using apos by (simp add: bitlen.simps)
  define e where "e = int (bitlen ?a) - 1"
  define k where "k = nat (52 - e)"
  have e: "0 \<le> e" "e \<le> 52" using le ge by (simp_all add: e_def)
  have fl: "\<lfloor>\<bar>of_int n :: real\<bar>\<rfloor> = \<bar>n\<bar>" by (metis of_int_abs floor_of_int)
  have "(1::real) \<le> of_int \<bar>n\<bar>" using False by (simp add: of_int_1_le_iff)
  then have one: "(1::real) \<le> \<bar>of_int n\<bar>" by simp
  have il: "ilog2 \<bar>of_int n\<bar> = e"
    by (simp only: ilog2_def one fl e_def if_True)
  have u: "pow2 (e - 52) = 1 / 2 ^ k"
  proof (cases "e = 52")
    case True
    then show ?thesis by (simp add: pow2_def k_def)
  next
    case False
    with e have "e - 52 < 0" by simp
    then show ?thesis by (simp add: pow2_def k_def)
  qed
  have q: "\<bar>of_int n :: real\<bar> / (1 / 2 ^ k) = of_int (\<bar>n\<bar> * 2 ^ k)" by simp
  have mx: "max e (- 1022) = e" using e by simp
  have "round64 (of_int n) = Num (sgn (of_int n) * of_int (\<bar>n\<bar> * 2 ^ k) * (1 / 2 ^ k))"
    unfolding round64_def il mx Let_def u q round_half_even_int
    using False e by simp
  also have "sgn (of_int n :: real) * of_int (\<bar>n\<bar> * 2 ^ k) * (1 / 2 ^ k) = of_int n"
    by (simp add: sgn_if)
  finally show ?thesis .
qed

lemma dadd_Num: "dadd (Num a) (Num b) = round64 (a + b)"
  by (simp add: dadd_def)

lemma dsub_Num: "dsub (Num a) (Num b) = round64 (a - b)"
  by (simp add: dsub_def dadd_def dneg_def)

lemma val_Num [simp]: "val (Num q) = q"
  by (simp add: val_def)

lemma whole_int [simp]: "whole (Num (of_int k))"
  by (simp add: whole_def)

lemma whole_cases:
  assumes "whole x"
  obtains k where "x = Num (of_int k)"
  using assms by (cases x) (auto simp: whole_def intro: that dest: sym)

lemma dadd_whole:
  assumes "whole x" "whole y" "\<bar>val x + val y\<bar> < 2 ^ 53"
  shows "dadd x y = Num (val x + val y)" and "whole (dadd x y)"
proof -
  from assms(1) obtain a where x: "x = Num (of_int a)" by (rule whole_cases)
  from assms(2) obtain b where y: "y = Num (of_int b)" by (rule whole_cases)
  from assms(3) have "real_of_int \<bar>a + b\<bar> < real_of_int (2 ^ 53)" by (simp add: x y)
  then have "\<bar>a + b\<bar> < 2 ^ 53" by (simp only: of_int_less_iff)
  then have "round64 (of_int (a + b)) = Num (of_int (a + b))" by (rule round64_int)
  then have r: "dadd x y = Num (of_int (a + b))" by (simp add: x y dadd_Num)
  show "dadd x y = Num (val x + val y)" using r by (simp add: x y)
  show "whole (dadd x y)" unfolding r by (rule whole_int)
qed

lemma dsub_whole:
  assumes "whole x" "whole y" "\<bar>val x - val y\<bar> < 2 ^ 53"
  shows "dsub x y = Num (val x - val y)" and "whole (dsub x y)"
proof -
  from assms(1) obtain a where x: "x = Num (of_int a)" by (rule whole_cases)
  from assms(2) obtain b where y: "y = Num (of_int b)" by (rule whole_cases)
  from assms(3) have "real_of_int \<bar>a - b\<bar> < real_of_int (2 ^ 53)" by (simp add: x y)
  then have "\<bar>a - b\<bar> < 2 ^ 53" by (simp only: of_int_less_iff)
  then have "round64 (of_int (a - b)) = Num (of_int (a - b))" by (rule round64_int)
  then have r: "dsub x y = Num (of_int (a - b))" by (simp add: x y dsub_Num)
  show "dsub x y = Num (val x - val y)" using r by (simp add: x y)
  show "whole (dsub x y)" unfolding r by (rule whole_int)
qed

text \<open>The rules by which a sum, difference or quotient of two given numbers is computed.\<close>

lemmas round64_eval = round64_def ilog2_def pow2_def round_half_even_def Let_def bitlen.simps

lemmas number_eval = dadd_Num dsub_Num round64_eval

section \<open>Payroll processing: the loop\<close>

lemmas sample_defs = sample_db_def sample_db1_def sample_professor_def sample_clerk_def
  sample_retired_def sample_ids_def

lemma payroll_data_key [simp]:
  "employeeId (payroll_data e m y i) = eid e"
  "month (payroll_data e m y i) = m"
  "year (payroll_data e m y i) = y"
  "status (payroll_data e m y i) = PENDING"
  "paidAt (payroll_data e m y i) = None"
  by (simp_all add: payroll_data_def Let_def)

lemma payroll_data_snapshot:
  "snapshot_of e (payroll_data e m y i)"
  "grossSalary (payroll_data e m y i) = gross_of e"
  "netSalary (payroll_data e m y i) = net_of e"
  by (simp_all add: payroll_data_def Let_def snapshot_of_def gross_of_def net_of_def sum5_def)

text \<open>Whole amounts: every step of the salary calculation is exact.\<close>

lemma whole_amounts_exact:
  assumes "whole_amounts e"
  shows "gross_of e =
           Num (val (basicSalary e) + val (houseRent e) + val (medical e) + val (transport e)
                  + val (education e) + val (special e))"
    and "net_of e =
           Num (val (gross_of e)
                  - (val (tax e) + val (providentFund e) + val (insurance e) + val (loan e)
                       + val (other e)))"
proof -
  from assms have w: "whole (basicSalary e)" "whole (houseRent e)" "whole (medical e)"
    "whole (transport e)" "whole (education e)" "whole (special e)" "whole (tax e)"
    "whole (providentFund e)" "whole (insurance e)" "whole (loan e)" "whole (other e)"
    and n: "0 \<le> val (basicSalary e)" "0 \<le> val (houseRent e)" "0 \<le> val (medical e)"
    "0 \<le> val (transport e)" "0 \<le> val (education e)" "0 \<le> val (special e)"
    "0 \<le> val (tax e)" "0 \<le> val (providentFund e)" "0 \<le> val (insurance e)"
    "0 \<le> val (loan e)" "0 \<le> val (other e)"
    and s: "val (basicSalary e) + val (houseRent e) + val (medical e) + val (transport e)
              + val (education e) + val (special e) + val (tax e) + val (providentFund e)
              + val (insurance e) + val (loan e) + val (other e) < 2 ^ 53"
    by (simp_all add: whole_amounts_def amounts_def add.assoc)
  note a1 = dadd_whole[OF w(2) w(3)]
  have b1: "\<bar>val (houseRent e) + val (medical e)\<bar> < 2 ^ 53" using n s by linarith
  have v1: "val (dadd (houseRent e) (medical e)) = val (houseRent e) + val (medical e)"
    using a1(1)[OF b1] by simp
  note a2 = dadd_whole[OF a1(2)[OF b1] w(4)]
  have b2: "\<bar>val (dadd (houseRent e) (medical e)) + val (transport e)\<bar> < 2 ^ 53"
    using n s v1 by linarith
  have v2: "val (dadd (dadd (houseRent e) (medical e)) (transport e))
              = val (houseRent e) + val (medical e) + val (transport e)"
    using a2(1)[OF b2] v1 by simp
  note a3 = dadd_whole[OF a2(2)[OF b2] w(5)]
  have b3: "\<bar>val (dadd (dadd (houseRent e) (medical e)) (transport e)) + val (education e)\<bar>
              < 2 ^ 53"
    using n s v2 by linarith
  have v3: "val (dadd (dadd (dadd (houseRent e) (medical e)) (transport e)) (education e))
              = val (houseRent e) + val (medical e) + val (transport e) + val (education e)"
    using a3(1)[OF b3] v2 by simp
  note a4 = dadd_whole[OF a3(2)[OF b3] w(6)]
  have b4: "\<bar>val (dadd (dadd (dadd (houseRent e) (medical e)) (transport e)) (education e))
               + val (special e)\<bar> < 2 ^ 53"
    using n s v3 by linarith
  let ?al = "sum5 (houseRent e) (medical e) (transport e) (education e) (special e)"
  have val: "val ?al = val (houseRent e) + val (medical e) + val (transport e)
                         + val (education e) + val (special e)"
    unfolding sum5_def using a4(1)[OF b4] v3 by simp
  have wal: "whole ?al" unfolding sum5_def by (rule a4(2)[OF b4])
  have bg: "\<bar>val (basicSalary e) + val ?al\<bar> < 2 ^ 53" using n s val by linarith
  note g = dadd_whole[OF w(1) wal bg]
  have vg: "val (gross_of e) = val (basicSalary e) + val (houseRent e) + val (medical e)
              + val (transport e) + val (education e) + val (special e)"
    unfolding gross_of_def using g(1) val by simp
  show "gross_of e =
           Num (val (basicSalary e) + val (houseRent e) + val (medical e) + val (transport e)
                  + val (education e) + val (special e))"
    unfolding gross_of_def using g(1) val by simp
  have wg: "whole (gross_of e)" unfolding gross_of_def by (rule g(2))
  note d1 = dadd_whole[OF w(7) w(8)]
  have c1: "\<bar>val (tax e) + val (providentFund e)\<bar> < 2 ^ 53" using n s by linarith
  have u1: "val (dadd (tax e) (providentFund e)) = val (tax e) + val (providentFund e)"
    using d1(1)[OF c1] by simp
  note d2 = dadd_whole[OF d1(2)[OF c1] w(9)]
  have c2: "\<bar>val (dadd (tax e) (providentFund e)) + val (insurance e)\<bar> < 2 ^ 53"
    using n s u1 by linarith
  have u2: "val (dadd (dadd (tax e) (providentFund e)) (insurance e))
              = val (tax e) + val (providentFund e) + val (insurance e)"
    using d2(1)[OF c2] u1 by simp
  note d3 = dadd_whole[OF d2(2)[OF c2] w(10)]
  have c3: "\<bar>val (dadd (dadd (tax e) (providentFund e)) (insurance e)) + val (loan e)\<bar>
              < 2 ^ 53"
    using n s u2 by linarith
  have u3: "val (dadd (dadd (dadd (tax e) (providentFund e)) (insurance e)) (loan e))
              = val (tax e) + val (providentFund e) + val (insurance e) + val (loan e)"
    using d3(1)[OF c3] u2 by simp
  note d4 = dadd_whole[OF d3(2)[OF c3] w(11)]
  have c4: "\<bar>val (dadd (dadd (dadd (tax e) (providentFund e)) (insurance e)) (loan e))
               + val (other e)\<bar> < 2 ^ 53"
    using n s u3 by linarith
  let ?de = "sum5 (tax e) (providentFund e) (insurance e) (loan e) (other e)"
  have vde: "val ?de = val (tax e) + val (providentFund e) + val (insurance e)
                         + val (loan e) + val (other e)"
    unfolding sum5_def using d4(1)[OF c4] u3 by simp
  have wde: "whole ?de" unfolding sum5_def by (rule d4(2)[OF c4])
  have bn: "\<bar>val (gross_of e) - val ?de\<bar> < 2 ^ 53" using n s vg vde by linarith
  show "net_of e =
           Num (val (gross_of e)
                  - (val (tax e) + val (providentFund e) + val (insurance e) + val (loan e)
                       + val (other e)))"
    unfolding net_of_def using dsub_whole(1)[OF wg wde bn] vde by simp
qed

lemma findUnique_period_None:
  "int32 m \<Longrightarrow> int32 y \<Longrightarrow>
     payroll_findUnique_period tbl i m y = Inr None \<longleftrightarrow> \<not> has_period tbl i m y"
  by (auto simp: payroll_findUnique_period_def has_period_def find_None_iff)

text \<open>
  One turn of the loop with month and year in range either records the skip or appends
  the new row: after a failed lookup the unique index cannot reject the insert. Out of
  range, every turn records the refusal of the lookup.
\<close>

lemma process_employee_step:
  assumes "int32 m" "int32 y"
  shows "process_employee newId m y e (tbl, recs, errs) =
     (if has_period tbl (eid e) m y then (tbl, recs, errs @ [already e])
      else (tbl @ [payroll_data e m y (newId (length tbl))],
            recs @ [payroll_data e m y (newId (length tbl))], errs))"
proof (cases "has_period tbl (eid e) m y")
  case True
  with assms have "payroll_findUnique_period tbl (eid e) m y \<noteq> Inr None"
    by (simp add: findUnique_period_None)
  moreover from assms have "\<exists>r. payroll_findUnique_period tbl (eid e) m y = Inr r"
    by (simp add: payroll_findUnique_period_def)
  ultimately obtain x where "payroll_findUnique_period tbl (eid e) m y = Inr (Some x)"
    by (metis not_Some_eq)
  with True show ?thesis by (simp add: process_employee_def already_def)
next
  case False
  with assms have n: "payroll_findUnique_period tbl (eid e) m y = Inr None"
    by (simp add: findUnique_period_None)
  from False have "\<not> (\<exists>p \<in> set tbl. employeeId p = eid e \<and> month p = m \<and> year p = y)"
    by (simp add: has_period_def)
  with assms have "payroll_create newId (payroll_data e m y) tbl =
        Inr (tbl @ [payroll_data e m y (newId (length tbl))],
             payroll_data e m y (newId (length tbl)))"
    by (simp add: payroll_create_def Let_def)
  with False n show ?thesis by (simp add: process_employee_def)
qed

lemma findUnique_period_range:
  "\<not> (int32 m \<and> int32 y) \<Longrightarrow> payroll_findUnique_period tbl i m y = Inl int4_message"
  by (auto simp: payroll_findUnique_period_def)

lemma process_employee_range:
  assumes "\<not> (int32 m \<and> int32 y)"
  shows "process_employee newId m y e (tbl, recs, errs) = (tbl, recs, errs @ [out_of_range e])"
proof -
  from assms have "payroll_findUnique_period tbl (eid e) m y = Inl int4_message"
    by (rule findUnique_period_range)
  then show ?thesis by (simp add: process_employee_def out_of_range_def)
qed

lemma process_loop_range:
  "\<not> (int32 m \<and> int32 y) \<Longrightarrow>
     process_loop newId m y es (tbl, recs, errs) = (tbl, recs, errs @ map out_of_range es)"
  by (induction es arbitrary: errs) (simp_all add: process_employee_range)

lemma process_loop_grows_in_range:
  "int32 m \<Longrightarrow> int32 y \<Longrightarrow>
   process_loop newId m y es (tbl, recs, errs) = (tbl', recs', errs') \<Longrightarrow>
     \<exists>new. tbl' = tbl @ new \<and> recs' = recs @ new \<and>
           (\<forall>p \<in> set new. \<exists>e \<in> set es. \<exists>i. p = payroll_data e m y i)"
proof (induction es arbitrary: tbl recs errs)
  case Nil
  then show ?case by simp
next
  case (Cons e es)
  note rng = Cons.prems(1,2)
  show ?case
  proof (cases "has_period tbl (eid e) m y")
    case True
    with Cons.prems
    have "process_loop newId m y es (tbl, recs, errs @ [already e]) = (tbl', recs', errs')"
      by (simp add: process_employee_step)
    from Cons.IH[OF rng this] show ?thesis by auto
  next
    case False
    let ?p = "payroll_data e m y (newId (length tbl))"
    from False Cons.prems
    have "process_loop newId m y es (tbl @ [?p], recs @ [?p], errs) = (tbl', recs', errs')"
      by (simp add: process_employee_step)
    from Cons.IH[OF rng this] obtain new where
      n: "tbl' = (tbl @ [?p]) @ new" "recs' = (recs @ [?p]) @ new"
         "\<forall>p \<in> set new. \<exists>e \<in> set es. \<exists>i. p = payroll_data e m y i" by blast
    have "tbl' = tbl @ (?p # new) \<and> recs' = recs @ (?p # new) \<and>
          (\<forall>p \<in> set (?p # new). \<exists>e' \<in> set (e # es). \<exists>i. p = payroll_data e' m y i)"
      using n by auto
    then show ?thesis by blast
  qed
qed

lemma process_loop_grows:
  assumes "process_loop newId m y es (tbl, recs, errs) = (tbl', recs', errs')"
  shows "\<exists>new. tbl' = tbl @ new \<and> recs' = recs @ new \<and>
           (\<forall>p \<in> set new. \<exists>e \<in> set es. \<exists>i. p = payroll_data e m y i)"
proof (cases "int32 m \<and> int32 y")
  case True
  with assms show ?thesis using process_loop_grows_in_range by blast
next
  case False
  with assms have "tbl' = tbl @ [] \<and> recs' = recs @ []" by (simp add: process_loop_range)
  then show ?thesis by (intro exI[of _ "[]"]) simp
qed

lemma process_loop_covers:
  "int32 m \<Longrightarrow> int32 y \<Longrightarrow>
   process_loop newId m y es (tbl, recs, errs) = (tbl', recs', errs') \<Longrightarrow>
     \<forall>e \<in> set es. has_period tbl' (eid e) m y"
proof (induction es arbitrary: tbl recs errs)
  case Nil
  then show ?case by simp
next
  case (Cons e es)
  note rng = Cons.prems(1,2)
  obtain t1 r1 e1 where st: "process_employee newId m y e (tbl, recs, errs) = (t1, r1, e1)"
    by (metis prod_cases3)
  with Cons.prems have loop: "process_loop newId m y es (t1, r1, e1) = (tbl', recs', errs')"
    by simp
  have "has_period t1 (eid e) m y"
    using st rng by (auto simp: process_employee_step has_period_def split: if_splits)
  moreover from process_loop_grows[OF loop] obtain new where "tbl' = t1 @ new" by blast
  ultimately have "has_period tbl' (eid e) m y" by (auto simp: has_period_def)
  with Cons.IH[OF rng loop] show ?case by simp
qed

lemma process_loop_all_existing:
  "int32 m \<Longrightarrow> int32 y \<Longrightarrow> \<forall>e \<in> set es. has_period tbl (eid e) m y \<Longrightarrow>
     process_loop newId m y es (tbl, recs, errs) = (tbl, recs, errs @ map already es)"
  by (induction es arbitrary: errs) (simp_all add: process_employee_step)

lemma employee_findMany_subset:
  "e \<in> set (employee_findMany ids tbl) \<Longrightarrow> e \<in> set tbl \<and> estatus e = ACTIVE"
  by (auto simp: employee_findMany_def split: option.splits if_splits)

text \<open>What a 201 answer of the handler says about its run.\<close>

lemma processPayroll_Inr:
  assumes "processPayroll newId m y ids db = (Inr res, db')"
  obtains mv yv tbl where "m = Some mv" "y = Some yv" "mv \<noteq> 0" "yv \<noteq> 0"
    "employee_findMany ids (employees db) \<noteq> []"
    "process_loop newId mv yv (employee_findMany ids (employees db)) (payrolls db, [], [])
       = (tbl, processed res, errors res)"
    "db' = db \<lparr> payrolls := tbl \<rparr>"
proof -
  from assms obtain mv yv where my: "m = Some mv" "y = Some yv"
    by (cases m; cases y) (auto simp: processPayroll_def)
  from assms my have nz: "mv \<noteq> 0" "yv \<noteq> 0"
    by (auto simp: processPayroll_def split: if_splits)
  from assms my nz have ne: "employee_findMany ids (employees db) \<noteq> []"
    by (auto simp: processPayroll_def Let_def split: if_splits)
  obtain tbl recs errs where
    loop: "process_loop newId mv yv (employee_findMany ids (employees db)) (payrolls db, [], [])
       = (tbl, recs, errs)" by (metis prod_cases3)
  with assms my nz ne
  have "res = \<lparr> processed = recs, errors = errs \<rparr>" "db' = db \<lparr> payrolls := tbl \<rparr>"
    by (auto simp: processPayroll_def Let_def)
  with loop my nz ne that show ?thesis by simp
qed

text \<open>The sample rows, their salaries and the sample runs.\<close>

lemma int32_sample [simp]: "int32 3" "int32 2025" "\<not> int32 2147483648"
  by (simp_all add: int32_def)

lemma sample_salaries:
  "gross_of sample_professor = Num 115000" "net_of sample_professor = Num 93000"
  "gross_of sample_clerk = Num 1000" "net_of sample_clerk = Num (- 4000)"
  by (simp_all add: gross_of_def net_of_def sum5_def sample_professor_def sample_clerk_def
      number_eval)

lemma sample_run:
  "processPayroll sample_ids (Some 3) (Some 2025) None sample_db =
     (Inr \<lparr> processed = payrolls sample_db1, errors = [] \<rparr>, sample_db1)"
proof -
  have sel: "employee_findMany None (employees sample_db) = [sample_professor, sample_clerk]"
    by (simp add: employee_findMany_def sample_defs)
  have i: "eid sample_professor \<noteq> eid sample_clerk"
    by (simp add: sample_professor_def sample_clerk_def)
  have "process_loop sample_ids 3 2025 [sample_professor, sample_clerk] ([], [], [])
          = (payrolls sample_db1, payrolls sample_db1, [])"
    using i by (simp add: process_employee_step has_period_def sample_db1_def sample_ids_def)
  with sel show ?thesis
    by (simp add: processPayroll_def Let_def) (simp add: sample_db_def sample_db1_def)
qed

section \<open>Payroll processing: the claims\<close>

text \<open>
  C1, as amended. Every Payroll that a run of the processing handler creates is appended
  to the table, belongs to an ACTIVE employee of the store and copies that employee's
  eleven money columns as they are at that moment. Its grossSalary is
  basicSalary + (houseRent + medical + transport + education + special) and its netSalary
  is grossSalary - (tax + providentFund + insurance + loan + other) in double-precision
  arithmetic, the allowances and the deductions added from left to right first, each step
  rounded, and nothing floors the net salary. When the employee's amounts are whole, not
  negative and add up to less than 2^53, no step rounds and both are the exact sums.
\<close>

theorem processPayroll_gross_net:
  assumes "processPayroll newId m y ids db = (Inr res, db')"
  shows "payrolls db' = payrolls db @ processed res \<and>
         (\<forall>p \<in> set (processed res). \<exists>e \<in> set (employees db).
            estatus e = ACTIVE \<and> snapshot_of e p \<and>
            grossSalary p =
              dadd (basicSalary e)
                (sum5 (houseRent e) (medical e) (transport e) (education e) (special e)) \<and>
            netSalary p =
              dsub (grossSalary p)
                (sum5 (tax e) (providentFund e) (insurance e) (loan e) (other e)) \<and>
            (whole_amounts e \<longrightarrow>
               grossSalary p =
                 Num (val (basicSalary e) + val (houseRent e) + val (medical e)
                        + val (transport e) + val (education e) + val (special e)) \<and>
               netSalary p =
                 Num (val (grossSalary p)
                        - (val (tax e) + val (providentFund e) + val (insurance e)
                             + val (loan e) + val (other e)))))"
proof -
  from assms obtain mv yv tbl where
    loop: "process_loop newId mv yv (employee_findMany ids (employees db)) (payrolls db, [], [])
       = (tbl, processed res, errors res)" and db': "db' = db \<lparr> payrolls := tbl \<rparr>"
    by (rule processPayroll_Inr)
  from process_loop_grows[OF loop] obtain new where
    new: "tbl = payrolls db @ new" "processed res = new"
      "\<forall>p \<in> set new. \<exists>e \<in> set (employee_findMany ids (employees db)).
          \<exists>i. p = payroll_data e mv yv i"
    by auto
  have "payrolls db' = payrolls db @ processed res" using new db' by simp
  moreover have "\<exists>e \<in> set (employees db).
            estatus e = ACTIVE \<and> snapshot_of e p \<and>
            grossSalary p =
              dadd (basicSalary e)
                (sum5 (houseRent e) (medical e) (transport e) (education e) (special e)) \<and>
            netSalary p =
              dsub (grossSalary p)
                (sum5 (tax e) (providentFund e) (insurance e) (loan e) (other e)) \<and>
            (whole_amounts e \<longrightarrow>
               grossSalary p =
                 Num (val (basicSalary e) + val (houseRent e) + val (medical e)
                        + val (transport e) + val (education e) + val (special e)) \<and>
               netSalary p =
                 Num (val (grossSalary p)
                        - (val (tax e) + val (providentFund e) + val (insurance e)
                             + val (loan e) + val (other e))))"
    if "p \<in> set (processed res)" for p
  proof -
    from that new obtain e i where e: "e \<in> set (employee_findMany ids (employees db))"
      and p: "p = payroll_data e mv yv i" by blast
    from e have mem: "e \<in> set (employees db)" "estatus e = ACTIVE"
      using employee_findMany_subset by blast+
    have g: "grossSalary p = gross_of e" and n: "netSalary p = net_of e"
      and s: "snapshot_of e p"
      unfolding p by (rule payroll_data_snapshot)+
    have "grossSalary p =
              dadd (basicSalary e)
                (sum5 (houseRent e) (medical e) (transport e) (education e) (special e))"
      using g by (simp add: gross_of_def)
    moreover have "netSalary p =
              dsub (grossSalary p)
                (sum5 (tax e) (providentFund e) (insurance e) (loan e) (other e))"
      using g n by (simp add: net_of_def)
    moreover have "whole_amounts e \<longrightarrow>
               grossSalary p =
                 Num (val (basicSalary e) + val (houseRent e) + val (medical e)
                        + val (transport e) + val (education e) + val (special e)) \<and>
               netSalary p =
                 Num (val (grossSalary p)
                        - (val (tax e) + val (providentFund e) + val (insurance e)
                             + val (loan e) + val (other e)))"
      using whole_amounts_exact[of e] g n by simp
    ultimately show ?thesis using mem s by blast
  qed
  ultimately show ?thesis by blast
qed

text \<open>
  C1, at the sample store: the employee with basic salary 80000, allowances 20000, 5000,
  3000, 2000, 5000 and deductions 12000, 8000, 2000, 0, 0 has whole amounts and gets
  gross 115000 and net 93000; the clerk's net salary is negative.
\<close>

theorem processPayroll_gross_net_witness:
  "processPayroll sample_ids (Some 3) (Some 2025) None sample_db
     = (Inr \<lparr> processed = payrolls sample_db1, errors = [] \<rparr>, sample_db1) \<and>
   payrolls sample_db1 = payrolls sample_db @ payrolls sample_db1 \<and>
   whole_amounts sample_professor \<and>
   (\<exists>e \<in> set (employees sample_db).
       estatus e = ACTIVE \<and> snapshot_of e (payroll_data sample_professor 3 2025 ''p0'') \<and>
       grossSalary (payroll_data sample_professor 3 2025 ''p0'') =
         dadd (basicSalary e)
           (sum5 (houseRent e) (medical e) (transport e) (education e) (special e)) \<and>
       netSalary (payroll_data sample_professor 3 2025 ''p0'') =
         dsub (grossSalary (payroll_data sample_professor 3 2025 ''p0''))
           (sum5 (tax e) (providentFund e) (insurance e) (loan e) (other e))) \<and>
   map grossSalary (payrolls sample_db1) = [Num 115000, Num 1000] \<and>
   map netSalary (payrolls sample_db1) = [Num 93000, Num (- 4000)]"
proof -
  let ?p = "payroll_data sample_professor 3 2025 ''p0''"
  have vals: "map grossSalary (payrolls sample_db1) = [Num 115000, Num 1000]"
       "map netSalary (payrolls sample_db1) = [Num 93000, Num (- 4000)]"
    by (simp_all add: sample_db1_def payroll_data_snapshot sample_salaries)
  have w: "whole_amounts sample_professor"
    by (simp add: whole_amounts_def amounts_def sample_professor_def whole_def)
  have mem: "?p \<in> set (processed \<lparr> processed = payrolls sample_db1, errors = [] \<rparr>)"
    by (simp add: sample_db1_def)
  from processPayroll_gross_net[OF sample_run]
  have app: "payrolls sample_db1 = payrolls sample_db @ payrolls sample_db1"
    and each: "\<forall>p \<in> set (processed \<lparr> processed = payrolls sample_db1, errors = [] \<rparr>).
       \<exists>e \<in> set (employees sample_db).
            estatus e = ACTIVE \<and> snapshot_of e p \<and>
            grossSalary p =
              dadd (basicSalary e)
                (sum5 (houseRent e) (medical e) (transport e) (education e) (special e)) \<and>
            netSalary p =
              dsub (grossSalary p)
                (sum5 (tax e) (providentFund e) (insurance e) (loan e) (other e)) \<and>
            (whole_amounts e \<longrightarrow>
               grossSalary p =
                 Num (val (basicSalary e) + val (houseRent e) + val (medical e)
                        + val (transport e) + val (education e) + val (special e)) \<and>
               netSalary p =
                 Num (val (grossSalary p)
                        - (val (tax e) + val (providentFund e) + val (insurance e)
                             + val (loan e) + val (other e))))"
    by simp_all
  from bspec[OF each mem] obtain e where e: "e \<in> set (employees sample_db)"
    "estatus e = ACTIVE" "snapshot_of e ?p"
    "grossSalary ?p =
       dadd (basicSalary e)
         (sum5 (houseRent e) (medical e) (transport e) (education e) (special e))"
    "netSalary ?p =
       dsub (grossSalary ?p)
         (sum5 (tax e) (providentFund e) (insurance e) (loan e) (other e))"
    by blast
  then have ex: "\<exists>e \<in> set (employees sample_db).
       estatus e = ACTIVE \<and> snapshot_of e ?p \<and>
       grossSalary ?p =
         dadd (basicSalary e)
           (sum5 (houseRent e) (medical e) (transport e) (education e) (special e)) \<and>
       netSalary ?p =
         dsub (grossSalary ?p)
           (sum5 (tax e) (providentFund e) (insurance e) (loan e) (other e))"
    by blast
  from sample_run app w ex vals show ?thesis by (intro conjI)
qed

text \<open>
  C1 as stated fails for amounts with cents. With basic salary 0.1, house rent 0.2 and
  medical allowance 0.3 the handler stores the gross salary 0.6, which is neither the
  exact sum of the three amounts nor the value 0.6000000000000001 of the claim's
  expression basicSalary + houseRent + medical + transport + education + special.
\<close>

theorem processPayroll_gross_rounded:
  "processPayroll sample_ids (Some 3) (Some 2025) None cents_db
     = (Inr \<lparr> processed = [cents_payroll], errors = [] \<rparr>,
        cents_db \<lparr> payrolls := [cents_payroll] \<rparr>) \<and>
   basicSalary cents_payroll = d01 \<and> houseRent cents_payroll = d02 \<and>
   medical cents_payroll = d03 \<and>
   is_double d01 \<and> is_double d02 \<and> is_double d03 \<and>
   round64 (1 / 10) = d01 \<and> round64 (2 / 10) = d02 \<and> round64 (3 / 10) = d03 \<and>
   grossSalary cents_payroll = Num (5404319552844595 / 9007199254740992) \<and>
   dadd (dadd (dadd (dadd (dadd d01 d02) d03) (Num 0)) (Num 0)) (Num 0)
     = Num (1351079888211149 / 2251799813685248) \<and>
   val d01 + val d02 + val d03 + 0 + 0 + 0 = 21617278211378381 / 36028797018963968 \<and>
   Num (5404319552844595 / 9007199254740992) \<noteq> Num (1351079888211149 / 2251799813685248) \<and>
   Num (5404319552844595 / 9007199254740992) \<noteq> Num (21617278211378381 / 36028797018963968)"
proof -
  let ?e = "cents_employee ''c1'' STAFF d01 d02 d03"
  have sel: "employee_findMany None (employees cents_db) = [?e]"
    by (simp add: employee_findMany_def cents_db_def cents_employee_def)
  have "process_loop sample_ids 3 2025 [?e] ([], [], []) = ([cents_payroll], [cents_payroll], [])"
    by (simp add: process_employee_step has_period_def cents_payroll_def sample_ids_def)
  with sel have run: "processPayroll sample_ids (Some 3) (Some 2025) None cents_db
     = (Inr \<lparr> processed = [cents_payroll], errors = [] \<rparr>,
        cents_db \<lparr> payrolls := [cents_payroll] \<rparr>)"
    by (simp add: processPayroll_def Let_def) (simp add: cents_db_def)
  have cols: "basicSalary cents_payroll = d01" "houseRent cents_payroll = d02"
    "medical cents_payroll = d03"
    by (simp_all add: cents_payroll_def payroll_data_def Let_def cents_employee_def)
  have dbl: "is_double d01" "is_double d02" "is_double d03"
    by (simp_all add: is_double_def round64_eval d01_def d02_def d03_def)
  have lit: "round64 (1 / 10) = d01" "round64 (2 / 10) = d02" "round64 (3 / 10) = d03"
    by (simp_all add: round64_eval d01_def d02_def d03_def)
  have "gross_of ?e = Num (5404319552844595 / 9007199254740992)"
    by (simp add: gross_of_def sum5_def cents_employee_def number_eval d01_def d02_def d03_def)
  then have gross: "grossSalary cents_payroll = Num (5404319552844595 / 9007199254740992)"
    by (simp add: cents_payroll_def payroll_data_snapshot)
  have left: "dadd (dadd (dadd (dadd (dadd d01 d02) d03) (Num 0)) (Num 0)) (Num 0)
     = Num (1351079888211149 / 2251799813685248)"
    by (simp add: number_eval d01_def d02_def d03_def)
  have exact: "val d01 + val d02 + val d03 + 0 + 0 + 0
                 = 21617278211378381 / 36028797018963968"
    by (simp add: d01_def d02_def d03_def)
  have ne: "Num (5404319552844595 / 9007199254740992)
              \<noteq> Num (1351079888211149 / 2251799813685248)"
    "Num (5404319552844595 / 9007199254740992)
              \<noteq> Num (21617278211378381 / 36028797018963968)"
    by simp_all
  from run cols dbl lit gross left exact ne show ?thesis by (intro conjI)
qed

text \<open>
  The controller creates PENDING rows. When the processing handler answers 201 for a
  month and year within the INTEGER range, the rows it created are exactly the rows
  appended to the table, each of them has status PENDING and no paid timestamp, and every
  selected employee that had no Payroll for the period has such a row afterwards.
\<close>

lemma processPayroll_pending:
  assumes "processPayroll newId (Some mv) (Some yv) ids db = (Inr res, db')"
    and "int32 mv" "int32 yv"
  shows "payrolls db' = payrolls db @ processed res \<and>
         (\<forall>p \<in> set (processed res). status p = PENDING \<and> paidAt p = None) \<and>
         (\<forall>e \<in> set (employee_findMany ids (employees db)).
            \<not> has_period (payrolls db) (eid e) mv yv \<longrightarrow>
            (\<exists>p \<in> set (processed res). employeeId p = eid e \<and> month p = mv \<and> year p = yv
                \<and> status p = PENDING \<and> paidAt p = None))"
proof -
  from assms(1) obtain tbl where
    loop: "process_loop newId mv yv (employee_findMany ids (employees db)) (payrolls db, [], [])
       = (tbl, processed res, errors res)" and db': "db' = db \<lparr> payrolls := tbl \<rparr>"
    by (rule processPayroll_Inr) auto
  from process_loop_grows[OF loop] obtain new where
    new: "tbl = payrolls db @ new" "processed res = new"
      "\<forall>p \<in> set new. \<exists>e \<in> set (employee_findMany ids (employees db)).
          \<exists>i. p = payroll_data e mv yv i"
    by auto
  have a: "payrolls db' = payrolls db @ processed res" using new db' by simp
  have b: "\<forall>p \<in> set (processed res). status p = PENDING \<and> paidAt p = None"
    using new by fastforce
  have c: "\<exists>p \<in> set (processed res). employeeId p = eid e \<and> month p = mv \<and> year p = yv
                \<and> status p = PENDING \<and> paidAt p = None"
    if e: "e \<in> set (employee_findMany ids (employees db))"
      and fresh: "\<not> has_period (payrolls db) (eid e) mv yv" for e
  proof -
    from process_loop_covers[OF assms(2,3) loop] e have "has_period tbl (eid e) mv yv"
      by blast
    then obtain p where p: "p \<in> set tbl" "employeeId p = eid e" "month p = mv" "year p = yv"
      by (auto simp: has_period_def)
    with fresh have "p \<notin> set (payrolls db)" by (auto simp: has_period_def)
    with p new have "p \<in> set (processed res)" by auto
    with p b show ?thesis by blast
  qed
  from a b c show ?thesis by blast
qed

text \<open>
  C2. The claim holds of the controller and fails for the service entry point by a slip
  of the code. At the sample store the professor is ACTIVE and has no Payroll for March
  2025. The controller persists a PENDING Payroll without paid timestamp for the triple;
  \<open>PayrollService.processPayroll\<close>, called for the same triple, throws a TypeError when it
  reads the allowances of the row, and persists nothing.
\<close>

theorem PayrollService_processPayroll_throws:
  "payrolls sample_db = [] \<and>
   employee_findUnique (employees sample_db) ''e1'' = Some sample_professor \<and>
   estatus sample_professor = ACTIVE \<and>
   processPayroll sample_ids (Some 3) (Some 2025) (Some [''e1'']) sample_db
     = (Inr \<lparr> processed = [sample_p0], errors = [] \<rparr>, sample_db \<lparr> payrolls := [sample_p0] \<rparr>) \<and>
   employeeId sample_p0 = ''e1'' \<and> month sample_p0 = 3 \<and> year sample_p0 = 2025 \<and>
   status sample_p0 = PENDING \<and> paidAt sample_p0 = None \<and>
   payroll_findFirst_period (payrolls sample_db) ''e1'' 3 2025 = Inr None \<and>
   PayrollService_processPayroll ''e1'' 3 2025 100 sample_db = (Inl TypeError, sample_db)"
proof -
  have sel: "employee_findMany (Some [''e1'']) (employees sample_db) = [sample_professor]"
    by (simp add: employee_findMany_def sample_defs)
  have "process_loop sample_ids 3 2025 [sample_professor] ([], [], [])
          = ([sample_p0], [sample_p0], [])"
    by (simp add: process_employee_step has_period_def sample_p0_def sample_ids_def)
  with sel have run: "processPayroll sample_ids (Some 3) (Some 2025) (Some [''e1'']) sample_db
     = (Inr \<lparr> processed = [sample_p0], errors = [] \<rparr>, sample_db \<lparr> payrolls := [sample_p0] \<rparr>)"
    by (simp add: processPayroll_def Let_def) (simp add: sample_db_def)
  have row: "employeeId sample_p0 = ''e1''" "month sample_p0 = 3" "year sample_p0 = 2025"
    "status sample_p0 = PENDING" "paidAt sample_p0 = None"
    by (simp_all add: sample_p0_def sample_professor_def)
  have store: "payrolls sample_db = []"
    "employee_findUnique (employees sample_db) ''e1'' = Some sample_professor"
    "estatus sample_professor = ACTIVE"
    by (simp_all add: employee_findUnique_def sample_defs)
  have look: "payroll_findFirst_period (payrolls sample_db) ''e1'' 3 2025 = Inr None"
    by (simp add: payroll_findFirst_period_def sample_db_def)
  have svc: "PayrollService_processPayroll ''e1'' 3 2025 100 sample_db = (Inl TypeError, sample_db)"
    by (simp add: PayrollService_processPayroll_def look store(2) calculateGrossSalary_def
        Object_values_def row_allowances_def)
  from store run row look svc show ?thesis by (intro conjI)
qed




text \<open>
  C8. When the selection (the ACTIVE employees, restricted to the supplied ids when the
  list is present and not empty) is empty, the handler fails and the store is unchanged,
  so no Payroll is created; for a request that carries month and year the failure is the
  404 "No active employees found".
\<close>

theorem processPayroll_no_eligible:
  assumes "employee_findMany ids (employees db) = []"
  shows "processPayroll newId m y ids db =
           (if m = None \<or> m = Some 0 \<or> y = None \<or> y = Some 0
            then Inl (Http400 ''Month and year are required'')
            else Inl (Http404 ''No active employees found''), db)"
  using assms by (cases m; cases y) (auto simp: processPayroll_def)

text \<open>C8, at a store without ACTIVE employees, for the period (5, 2030).\<close>

theorem processPayroll_no_eligible_witness:
  "employee_findMany None (employees sample_db_inactive) = [] \<and>
   processPayroll sample_ids (Some 5) (Some 2030) None sample_db_inactive =
     (Inl (Http404 ''No active employees found''), sample_db_inactive)"
proof -
  have sel: "employee_findMany None (employees sample_db_inactive) = []"
    by (simp add: employee_findMany_def sample_db_inactive_def sample_retired_def)
  from processPayroll_no_eligible[OF sel, of sample_ids "Some 5" "Some 2030"] sel
  show ?thesis by simp
qed

text \<open>
  C10. An \<open>employeeIds\<close> list that is present but empty is ignored: the handler selects
  all ACTIVE employees and answers exactly as it does when the list is omitted.
\<close>

theorem processPayroll_empty_ids:
  "processPayroll newId m y (Some []) db = processPayroll newId m y None db \<and>
   employee_findMany (Some []) (employees db) = filter (\<lambda>e. estatus e = ACTIVE) (employees db)"
  by (cases m; cases y) (simp_all add: processPayroll_def employee_findMany_def)

text \<open>C10, at the sample store: with the empty list both ACTIVE employees are processed.\<close>

theorem processPayroll_empty_ids_witness:
  "processPayroll sample_ids (Some 3) (Some 2025) (Some []) sample_db =
     (Inr \<lparr> processed = payrolls sample_db1, errors = [] \<rparr>, sample_db1) \<and>
   employee_findMany (Some []) (employees sample_db) = [sample_professor, sample_clerk]"
proof -
  have "filter (\<lambda>e. estatus e = ACTIVE) (employees sample_db) = [sample_professor, sample_clerk]"
    by (simp add: sample_defs)
  with processPayroll_empty_ids[of sample_ids "Some 3" "Some 2025" sample_db] sample_run
  show ?thesis by simp
qed

section \<open>Mark as paid\<close>

lemmas sample2_defs = sample_db2_def sample_db3_def sample_p0_def sample_p1_def paid_at_def

lemma payroll_findUnique_None:
  "payroll_findUnique tbl i = None \<longleftrightarrow> i \<notin> pid ` set tbl"
  by (auto simp: payroll_findUnique_def find_None_iff)

lemma payroll_update_found:
  "find (\<lambda>p. pid p = i) tbl = Some p \<Longrightarrow>
     \<exists>k < length tbl. tbl ! k = p \<and> (\<forall>j < k. pid (tbl ! j) \<noteq> i) \<and>
        payroll_update i f tbl = Some (tbl[k := f p], f p)"
proof (induction tbl)
  case Nil
  then show ?case by simp
next
  case (Cons q tbl)
  show ?case
  proof (cases "pid q = i")
    case True
    with Cons.prems have "q = p" by simp
    with True have "0 < length (q # tbl) \<and> (q # tbl) ! 0 = p \<and> (\<forall>j < 0. pid ((q # tbl) ! j) \<noteq> i) \<and>
        payroll_update i f (q # tbl) = Some ((q # tbl)[0 := f p], f p)" by simp
    then show ?thesis by blast
  next
    case False
    with Cons.prems have "find (\<lambda>p. pid p = i) tbl = Some p" by simp
    from Cons.IH[OF this] obtain k where k: "k < length tbl" "tbl ! k = p"
      "\<forall>j < k. pid (tbl ! j) \<noteq> i" "payroll_update i f tbl = Some (tbl[k := f p], f p)" by blast
    have "\<forall>j < Suc k. pid ((q # tbl) ! j) \<noteq> i"
      using False k(3) by (auto simp: less_Suc_eq_0_disj)
    with False k have "Suc k < length (q # tbl) \<and> (q # tbl) ! Suc k = p \<and>
        (\<forall>j < Suc k. pid ((q # tbl) ! j) \<noteq> i) \<and>
        payroll_update i f (q # tbl) = Some ((q # tbl)[Suc k := f p], f p)" by simp
    then show ?thesis by blast
  qed
qed

text \<open>The number of rows that go from PENDING to PAID under a conditional update.\<close>

lemma filter_transitioned:
  "length (filter (\<lambda>(old, new). status old = PENDING \<and> status new = PAID)
       (zip xs (map (\<lambda>p. if wh p \<and> status p = PENDING then p \<lparr> status := PAID, paidAt := Some now \<rparr> else p) xs)))
   = length (filter (\<lambda>p. wh p \<and> status p = PENDING) xs)"
  by (induction xs) auto

text \<open>
  C6. Single-record mark-as-paid. If no Payroll has the id, the handler answers 404
  "Payroll record not found" and the store is unchanged. If the Payroll with the id is
  already PAID, it answers 400 "Payroll already marked as paid" and the store is
  unchanged. Otherwise it answers with that Payroll with status PAID and the paid
  timestamp set to the current time, every other field as before, and the table differs
  from the old one in that row only.
\<close>

theorem markPayrollAsPaid_cases:
  "(i \<notin> pid ` set (payrolls db) \<longrightarrow>
      markPayrollAsPaid i now db = (Inl (Http404 ''Payroll record not found''), db)) \<and>
   (payroll_findUnique (payrolls db) i = Some p \<and> status p = PAID \<longrightarrow>
      markPayrollAsPaid i now db = (Inl (Http400 ''Payroll already marked as paid''), db)) \<and>
   (payroll_findUnique (payrolls db) i = Some p \<and> status p \<noteq> PAID \<longrightarrow>
      (\<exists>k < length (payrolls db).
          payrolls db ! k = p \<and> (\<forall>j < k. pid (payrolls db ! j) \<noteq> i) \<and>
          markPayrollAsPaid i now db =
            (Inr (p \<lparr> status := PAID, paidAt := Some now \<rparr>),
             db \<lparr> payrolls := (payrolls db)[k := p \<lparr> status := PAID, paidAt := Some now \<rparr>] \<rparr>)))"
proof (intro conjI impI)
  assume "i \<notin> pid ` set (payrolls db)"
  then have "payroll_findUnique (payrolls db) i = None" by (simp add: payroll_findUnique_None)
  then show "markPayrollAsPaid i now db = (Inl (Http404 ''Payroll record not found''), db)"
    by (simp add: markPayrollAsPaid_def)
next
  assume "payroll_findUnique (payrolls db) i = Some p \<and> status p = PAID"
  then show "markPayrollAsPaid i now db = (Inl (Http400 ''Payroll already marked as paid''), db)"
    by (simp add: markPayrollAsPaid_def)
next
  assume a: "payroll_findUnique (payrolls db) i = Some p \<and> status p \<noteq> PAID"
  then have "find (\<lambda>p. pid p = i) (payrolls db) = Some p" by (simp add: payroll_findUnique_def)
  from payroll_update_found[OF this, of "\<lambda>p. p \<lparr> status := PAID, paidAt := Some now \<rparr>"]
  obtain k where k: "k < length (payrolls db)" "payrolls db ! k = p"
    "\<forall>j < k. pid (payrolls db ! j) \<noteq> i"
    "payroll_update i (\<lambda>p. p \<lparr> status := PAID, paidAt := Some now \<rparr>) (payrolls db)
       = Some ((payrolls db)[k := p \<lparr> status := PAID, paidAt := Some now \<rparr>],
               p \<lparr> status := PAID, paidAt := Some now \<rparr>)" by blast
  from a k(4) have "markPayrollAsPaid i now db =
            (Inr (p \<lparr> status := PAID, paidAt := Some now \<rparr>),
             db \<lparr> payrolls := (payrolls db)[k := p \<lparr> status := PAID, paidAt := Some now \<rparr>] \<rparr>)"
    by (simp add: markPayrollAsPaid_def)
  with k show "\<exists>k < length (payrolls db).
          payrolls db ! k = p \<and> (\<forall>j < k. pid (payrolls db ! j) \<noteq> i) \<and>
          markPayrollAsPaid i now db =
            (Inr (p \<lparr> status := PAID, paidAt := Some now \<rparr>),
             db \<lparr> payrolls := (payrolls db)[k := p \<lparr> status := PAID, paidAt := Some now \<rparr>] \<rparr>)"
    by blast
qed

text \<open>
  C6, at a store whose first Payroll is PAID and whose second is PENDING: an unknown id,
  the PAID row and the PENDING row.
\<close>

theorem markPayrollAsPaid_cases_witness:
  "markPayrollAsPaid ''p9'' 200 sample_db2 = (Inl (Http404 ''Payroll record not found''), sample_db2) \<and>
   markPayrollAsPaid ''p0'' 200 sample_db2 = (Inl (Http400 ''Payroll already marked as paid''), sample_db2) \<and>
   markPayrollAsPaid ''p1'' 200 sample_db2 = (Inr (paid_at 200 sample_p1), sample_db3) \<and>
   status sample_p1 = PENDING \<and> paidAt sample_p1 = None \<and>
   status (paid_at 200 sample_p1) = PAID \<and> paidAt (paid_at 200 sample_p1) = Some 200"
proof -
  have n: "''p9'' \<notin> pid ` set (payrolls sample_db2)"
    by (simp add: sample2_defs payroll_data_def Let_def)
  have a: "payroll_findUnique (payrolls sample_db2) ''p0'' = Some (paid_at 100 sample_p0)
            \<and> status (paid_at 100 sample_p0) = PAID"
    by (simp add: payroll_findUnique_def sample2_defs payroll_data_def Let_def)
  have b: "payroll_findUnique (payrolls sample_db2) ''p1'' = Some sample_p1
            \<and> status sample_p1 \<noteq> PAID"
    by (simp add: payroll_findUnique_def sample2_defs payroll_data_def Let_def)
  from markPayrollAsPaid_cases[of "''p9''" sample_db2 200] n
  have 1: "markPayrollAsPaid ''p9'' 200 sample_db2 = (Inl (Http404 ''Payroll record not found''), sample_db2)"
    by blast
  from markPayrollAsPaid_cases[of "''p0''" sample_db2 200 "paid_at 100 sample_p0"] a
  have 2: "markPayrollAsPaid ''p0'' 200 sample_db2 = (Inl (Http400 ''Payroll already marked as paid''), sample_db2)"
    by blast
  from markPayrollAsPaid_cases[of "''p1''" sample_db2 200 sample_p1] b
  obtain k where k: "k < length (payrolls sample_db2)" "payrolls sample_db2 ! k = sample_p1"
    "markPayrollAsPaid ''p1'' 200 sample_db2 =
            (Inr (sample_p1 \<lparr> status := PAID, paidAt := Some 200 \<rparr>),
             sample_db2 \<lparr> payrolls := (payrolls sample_db2)[k := sample_p1 \<lparr> status := PAID, paidAt := Some 200 \<rparr>] \<rparr>)"
    by blast
  have "k = 1"
  proof (rule ccontr)
    assume "k \<noteq> 1"
    with k(1) have "k = 0" by (simp add: sample_db2_def)
    with k(2) show False by (simp add: sample2_defs payroll_data_def Let_def)
  qed
  with k(3) have 3: "markPayrollAsPaid ''p1'' 200 sample_db2 = (Inr (paid_at 200 sample_p1), sample_db3)"
    by (simp add: sample_db2_def sample_db3_def paid_at_def)
  have 4: "status sample_p1 = PENDING \<and> paidAt sample_p1 = None \<and>
   status (paid_at 200 sample_p1) = PAID \<and> paidAt (paid_at 200 sample_p1) = Some 200"
    by (simp add: sample2_defs)
  from 1 2 3 4 show ?thesis by blast
qed

text \<open>
  C7. Bulk mark-as-paid over a non-empty id list succeeds. A row whose id is listed and
  whose status is PENDING becomes PAID with the one timestamp of the call; every other
  row (already PAID, or not listed) is left as it is, ids without a row play no part, and
  the returned count is the number of rows that went from PENDING to PAID.
\<close>

theorem bulkMarkAsPaid_pending_only:
  assumes "ids \<noteq> []"
  shows "\<exists>n tbl. bulkMarkAsPaid (Some ids) now db = (Inr n, db \<lparr> payrolls := tbl \<rparr>) \<and>
           length tbl = length (payrolls db) \<and>
           (\<forall>k < length tbl.
              tbl ! k = (if pid (payrolls db ! k) \<in> set ids \<and> status (payrolls db ! k) = PENDING
                         then (payrolls db ! k) \<lparr> status := PAID, paidAt := Some now \<rparr>
                         else payrolls db ! k)) \<and>
           n = length (filter (\<lambda>(old, new). status old = PENDING \<and> status new = PAID)
                         (zip (payrolls db) tbl))"
proof -
  let ?g = "\<lambda>p. if pid p \<in> set ids \<and> status p = PENDING
                 then p \<lparr> status := PAID, paidAt := Some now \<rparr> else p"
  let ?tbl = "map ?g (payrolls db)"
  let ?n = "length (filter (\<lambda>p. pid p \<in> set ids \<and> status p = PENDING) (payrolls db))"
  from assms have run: "bulkMarkAsPaid (Some ids) now db = (Inr ?n, db \<lparr> payrolls := ?tbl \<rparr>)"
    by (simp add: bulkMarkAsPaid_def payroll_updateMany_def)
  have len: "length ?tbl = length (payrolls db)" by simp
  have pt: "\<forall>k < length ?tbl. ?tbl ! k = ?g (payrolls db ! k)" by simp
  have cnt: "?n = length (filter (\<lambda>(old, new). status old = PENDING \<and> status new = PAID)
                         (zip (payrolls db) ?tbl))"
    using filter_transitioned[where wh = "\<lambda>p. pid p \<in> set ids" and now = now and xs = "payrolls db"]
    by simp
  from run len pt cnt show ?thesis by blast
qed


text \<open>
  C7, at the same store with the ids of the PAID row, the PENDING row and of no row: one
  row is counted, and the PAID row keeps its old timestamp.
\<close>

theorem bulkMarkAsPaid_pending_only_witness:
  "[''p0'', ''p1'', ''p9''] \<noteq> [] \<and>
   bulkMarkAsPaid (Some [''p0'', ''p1'', ''p9'']) 200 sample_db2 = (Inr 1, sample_db3) \<and>
   map status (payrolls sample_db2) = [PAID, PENDING] \<and>
   map paidAt (payrolls sample_db3) = [Some 100, Some 200]"
proof -
  have ne: "[''p0'', ''p1'', ''p9''] \<noteq> []" by simp
  from bulkMarkAsPaid_pending_only[OF ne, of 200 sample_db2] obtain n tbl where
    run: "bulkMarkAsPaid (Some [''p0'', ''p1'', ''p9'']) 200 sample_db2
            = (Inr n, sample_db2 \<lparr> payrolls := tbl \<rparr>)"
    and len: "length tbl = length (payrolls sample_db2)"
    and pt: "\<forall>k < length tbl.
              tbl ! k = (if pid (payrolls sample_db2 ! k) \<in> set [''p0'', ''p1'', ''p9'']
                            \<and> status (payrolls sample_db2 ! k) = PENDING
                         then (payrolls sample_db2 ! k) \<lparr> status := PAID, paidAt := Some 200 \<rparr>
                         else payrolls sample_db2 ! k)"
    and cnt: "n = length (filter (\<lambda>(old, new). status old = PENDING \<and> status new = PAID)
                         (zip (payrolls sample_db2) tbl))"
    by blast
  from len have l2: "length tbl = 2" by (simp add: sample_db2_def)
  from pt l2 have "tbl ! 0 = paid_at 100 sample_p0"
    by (simp add: sample2_defs payroll_data_def Let_def)
  moreover from pt l2 have "tbl ! 1 = paid_at 200 sample_p1"
    by (simp add: sample2_defs payroll_data_def Let_def)
  ultimately have tbl: "tbl = [paid_at 100 sample_p0, paid_at 200 sample_p1]"
    using l2 by (intro nth_equalityI) (auto simp: less_Suc_eq numeral_2_eq_2)
  with cnt have "n = 1" by (simp add: sample2_defs payroll_data_def Let_def)
  with run tbl have "bulkMarkAsPaid (Some [''p0'', ''p1'', ''p9'']) 200 sample_db2 = (Inr 1, sample_db3)"
    by (simp add: sample_db2_def sample_db3_def)
  moreover have "map status (payrolls sample_db2) = [PAID, PENDING]"
    "map paidAt (payrolls sample_db3) = [Some 100, Some 200]"
    by (simp_all add: sample2_defs)
  ultimately show ?thesis using ne by blast
qed


section \<open>Reports: maps and grouping\<close>

lemma Map_has_get: "Map_has mp k \<longleftrightarrow> Map_get mp k \<noteq> None"
  by (induction mp) (auto simp: Map_has_def Map_get_def)

lemma Map_set_absent: "Map_get mp k = None \<Longrightarrow> Map_set mp k v = mp @ [(k, v)]"
  by (induction mp) (auto simp: Map_get_def split: if_splits)

lemma Map_get_set_same: "Map_get (Map_set mp k v) k = Some v"
  by (induction mp) (auto simp: Map_get_def)

lemma Map_set_set: "Map_set (Map_set mp k v) k w = Map_set mp k w"
  by (induction mp) auto

lemma Map_get_mem: "Map_get mp k = Some d \<Longrightarrow> (k, d) \<in> set mp"
  by (simp add: Map_get_def map_of_SomeD)

text \<open>The has / set / get / mutate sequence of a grouping step is one upsert.\<close>

lemma ensure_then_bump:
  "(let mp1 = (if \<not> Map_has mp k then Map_set mp k z else mp)
    in case Map_get mp1 k of None \<Rightarrow> mp1 | Some d \<Rightarrow> Map_set mp1 k (b d))
   = upsert z b mp k"
proof (cases "Map_get mp k")
  case None
  then have h: "\<not> Map_has mp k" by (simp add: Map_has_get)
  have g: "Map_get (Map_set mp k z) k = Some z" by (rule Map_get_set_same)
  have "Map_set (Map_set mp k z) k (b z) = Map_set mp k (b z)" by (rule Map_set_set)
  also have "\<dots> = mp @ [(k, b z)]" using None by (rule Map_set_absent)
  finally show ?thesis using None h g by (simp add: upsert_def Let_def)
next
  case (Some d)
  then have "Map_has mp k" by (simp add: Map_has_get)
  with Some show ?thesis by (simp add: upsert_def Let_def)
qed

lemma group_sum_set:
  fixes g :: "'v \<Rightarrow> 'a::comm_monoid_add"
  shows "Map_get mp k = Some d \<Longrightarrow>
     group_sum g (Map_set mp k v) + g d = group_sum g mp + g v"
proof (induction mp)
  case Nil
  then show ?case by (simp add: Map_get_def)
next
  case (Cons a mp)
  obtain k' v' where a: "a = (k', v')" by (cases a)
  show ?case
  proof (cases "k' = k")
    case True
    with Cons.prems a have "v' = d" by (simp add: Map_get_def)
    with True a show ?thesis by (simp add: group_sum_def add.commute add.left_commute)
  next
    case False
    with Cons.prems a have "Map_get mp k = Some d" by (simp add: Map_get_def)
    from Cons.IH[OF this] False a show ?thesis
      by (simp add: group_sum_def add.assoc)
  qed
qed

lemma group_sum_upsert:
  fixes g :: "'v \<Rightarrow> 'a::cancel_comm_monoid_add"
  assumes z: "Map_get mp k = None \<Longrightarrow> g (b z) = x"
    and b: "\<And>d. Map_get mp k = Some d \<Longrightarrow> g (b d) = g d + x"
  shows "group_sum g (upsert z b mp k) = group_sum g mp + x"
proof (cases "Map_get mp k")
  case None
  then show ?thesis by (simp add: upsert_def group_sum_def z)
next
  case (Some d)
  from group_sum_set[OF Some, of g "b d"]
  have "group_sum g (Map_set mp k (b d)) + g d = (group_sum g mp + x) + g d"
    by (simp add: b[OF Some] ac_simps)
  then have "group_sum g (Map_set mp k (b d)) = group_sum g mp + x"
    by (rule add_right_imp_eq)
  with Some show ?thesis by (simp add: upsert_def)
qed

lemma set_Map_set: "set (Map_set mp k v) \<subseteq> insert (k, v) (set mp)"
  by (induction mp) (auto split: if_splits)

lemma set_upsert:
  assumes "entry \<in> set (upsert z b mp k)"
  shows "entry \<in> set mp \<or> (Map_get mp k = None \<and> entry = (k, b z))
           \<or> (\<exists>d. Map_get mp k = Some d \<and> entry = (k, b d))"
proof (cases "Map_get mp k")
  case None
  with assms show ?thesis by (auto simp: upsert_def)
next
  case (Some d)
  with assms have "entry \<in> set (Map_set mp k (b d))" by (simp add: upsert_def)
  with set_Map_set[of mp k "b d"] have "entry = (k, b d) \<or> entry \<in> set mp" by auto
  with Some show ?thesis by auto
qed

lemma keys_Map_set: "Map_get mp k \<noteq> None \<Longrightarrow> map fst (Map_set mp k v) = map fst mp"
  by (induction mp) (auto simp: Map_get_def)

lemma distinct_upsert: "distinct (map fst mp) \<Longrightarrow> distinct (map fst (upsert z b mp k))"
proof (cases "Map_get mp k")
  case None
  assume "distinct (map fst mp)"
  moreover from None have "k \<notin> fst ` set mp" by (simp add: Map_get_def map_of_eq_None_iff)
  ultimately show ?thesis using None by (simp add: upsert_def)
next
  case (Some d)
  assume "distinct (map fst mp)"
  with Some show ?thesis by (simp add: upsert_def keys_Map_set)
qed

lemma type_step_upsert:
  "type_step mp (p, e) =
     upsert \<lparr> count = 0, totalBasicSalary = Num 0, totalGrossSalary = Num 0,
              totalNetSalary = Num 0, totalAllowances = Num 0, totalDeductions = Num 0 \<rparr>
       (\<lambda>typeData. typeData
                     \<lparr> count := count typeData + 1,
                       totalBasicSalary := dadd (totalBasicSalary typeData) (basicSalary p),
                       totalAllowances := dadd (totalAllowances typeData)
                         (dadd (dadd (dadd (dadd (houseRent p) (medical p))
                                        (transport p)) (education p))
                            (special p)),
                       totalDeductions := dadd (totalDeductions typeData)
                         (dadd (dadd (dadd (dadd (tax p) (providentFund p))
                                        (insurance p)) (loan p))
                            (other p)),
                       totalGrossSalary := dadd (totalGrossSalary typeData) (grossSalary p),
                       totalNetSalary := dadd (totalNetSalary typeData) (netSalary p) \<rparr>)
       mp (employeeType e)"
  unfolding type_step_def Let_def
  by (simp only: prod.case ensure_then_bump[unfolded Let_def])

lemma type_step_count:
  "group_sum count (type_step mp row) = group_sum count mp + 1"
  by (cases row) (simp add: type_step_upsert group_sum_upsert)

lemma foldl_type_step_count:
  "group_sum count (foldl type_step mp rows) = group_sum count mp + length rows"
  by (induction rows arbitrary: mp) (simp_all add: type_step_count)

lemma foldl_type_step_distinct:
  "distinct (map fst mp) \<Longrightarrow> distinct (map fst (foldl type_step mp rows))"
proof (induction rows arbitrary: mp)
  case Nil
  then show ?case by simp
next
  case (Cons row rows)
  obtain p e where row: "row = (p, e)" by (cases row)
  from Cons.prems have "distinct (map fst (type_step mp row))"
    unfolding row type_step_upsert by (rule distinct_upsert)
  from Cons.IH[OF this] show ?case by simp
qed

text \<open>
  Whole net salaries: while the absolute values seen so far stay below \<open>2 ^ 53\<close>, every
  group total is whole and exact, and the totals add up to the sum of the net salaries.
\<close>

lemma type_step_whole:
  assumes inv: "\<forall>entry \<in> set mp.
                  whole (totalNetSalary (snd entry)) \<and> \<bar>val (totalNetSalary (snd entry))\<bar> \<le> S"
    and w: "whole (netSalary p)" and bd: "S + \<bar>val (netSalary p)\<bar> < 2 ^ 53" and S: "0 \<le> S"
  shows "\<forall>entry \<in> set (type_step mp (p, e)).
           whole (totalNetSalary (snd entry))
           \<and> \<bar>val (totalNetSalary (snd entry))\<bar> \<le> S + \<bar>val (netSalary p)\<bar>"
    and "group_sum (\<lambda>d. val (totalNetSalary d)) (type_step mp (p, e))
           = group_sum (\<lambda>d. val (totalNetSalary d)) mp + val (netSalary p)"
proof -
  let ?z = "\<lparr> count = 0, totalBasicSalary = Num 0, totalGrossSalary = Num 0,
              totalNetSalary = Num 0, totalAllowances = Num 0, totalDeductions = Num 0 \<rparr>"
  let ?b = "\<lambda>typeData. typeData
                     \<lparr> count := count typeData + 1,
                       totalBasicSalary := dadd (totalBasicSalary typeData) (basicSalary p),
                       totalAllowances := dadd (totalAllowances typeData)
                         (dadd (dadd (dadd (dadd (houseRent p) (medical p))
                                        (transport p)) (education p))
                            (special p)),
                       totalDeductions := dadd (totalDeductions typeData)
                         (dadd (dadd (dadd (dadd (tax p) (providentFund p))
                                        (insurance p)) (loan p))
                            (other p)),
                       totalGrossSalary := dadd (totalGrossSalary typeData) (grossSalary p),
                       totalNetSalary := dadd (totalNetSalary typeData) (netSalary p) \<rparr>"
  have step: "whole (totalNetSalary (?b d))
              \<and> val (totalNetSalary (?b d)) = val (totalNetSalary d) + val (netSalary p)
              \<and> \<bar>val (totalNetSalary (?b d))\<bar> \<le> S + \<bar>val (netSalary p)\<bar>"
    if d: "whole (totalNetSalary d)" "\<bar>val (totalNetSalary d)\<bar> \<le> S" for d :: TypeData
  proof -
    have b: "\<bar>val (totalNetSalary d) + val (netSalary p)\<bar> < 2 ^ 53" using d(2) bd by linarith
    from dadd_whole[OF d(1) w b]
    have "dadd (totalNetSalary d) (netSalary p) = Num (val (totalNetSalary d) + val (netSalary p))"
      and "whole (dadd (totalNetSalary d) (netSalary p))" by simp_all
    moreover have "\<bar>val (totalNetSalary d) + val (netSalary p)\<bar> \<le> S + \<bar>val (netSalary p)\<bar>"
      using d(2) by linarith
    ultimately show ?thesis by simp
  qed
  have z: "whole (totalNetSalary ?z)" "\<bar>val (totalNetSalary ?z)\<bar> \<le> S"
    using S by (simp_all add: whole_def)
  have old: "whole (totalNetSalary d) \<and> \<bar>val (totalNetSalary d)\<bar> \<le> S"
    if "Map_get mp (employeeType e) = Some d" for d
    using inv Map_get_mem[OF that] by fastforce
  show "\<forall>entry \<in> set (type_step mp (p, e)).
           whole (totalNetSalary (snd entry))
           \<and> \<bar>val (totalNetSalary (snd entry))\<bar> \<le> S + \<bar>val (netSalary p)\<bar>"
  proof
    fix entry assume "entry \<in> set (type_step mp (p, e))"
    then have "entry \<in> set (upsert ?z ?b mp (employeeType e))" by (simp only: type_step_upsert)
    from set_upsert[OF this] consider
      (keep) "entry \<in> set mp"
      | (fresh) "entry = (employeeType e, ?b ?z)"
      | (bump) d where "Map_get mp (employeeType e) = Some d" "entry = (employeeType e, ?b d)"
      by blast
    then show "whole (totalNetSalary (snd entry))
           \<and> \<bar>val (totalNetSalary (snd entry))\<bar> \<le> S + \<bar>val (netSalary p)\<bar>"
    proof cases
      case keep
      with inv have "whole (totalNetSalary (snd entry))" "\<bar>val (totalNetSalary (snd entry))\<bar> \<le> S"
        by blast+
      then show ?thesis by linarith
    next
      case fresh
      from step[OF z] have "whole (totalNetSalary (?b ?z))"
        "\<bar>val (totalNetSalary (?b ?z))\<bar> \<le> S + \<bar>val (netSalary p)\<bar>" by blast+
      then show ?thesis by (simp only: fresh snd_conv)
    next
      case bump
      from old[OF bump(1)] have "whole (totalNetSalary d)" "\<bar>val (totalNetSalary d)\<bar> \<le> S"
        by simp_all
      from step[OF this] have "whole (totalNetSalary (?b d))"
        "\<bar>val (totalNetSalary (?b d))\<bar> \<le> S + \<bar>val (netSalary p)\<bar>" by blast+
      then show ?thesis by (simp only: bump(2) snd_conv)
    qed
  qed
  have "group_sum (\<lambda>d. val (totalNetSalary d)) (upsert ?z ?b mp (employeeType e))
           = group_sum (\<lambda>d. val (totalNetSalary d)) mp + val (netSalary p)"
  proof (rule group_sum_upsert)
    from step[OF z]
    have "val (totalNetSalary (?b ?z)) = val (totalNetSalary ?z) + val (netSalary p)" by blast
    then show "val (totalNetSalary (?b ?z)) = val (netSalary p)" by simp
  next
    fix d assume "Map_get mp (employeeType e) = Some d"
    from old[OF this] have "whole (totalNetSalary d)" "\<bar>val (totalNetSalary d)\<bar> \<le> S"
      by simp_all
    from step[OF this]
    show "val (totalNetSalary (?b d)) = val (totalNetSalary d) + val (netSalary p)" by simp
  qed
  then show "group_sum (\<lambda>d. val (totalNetSalary d)) (type_step mp (p, e))
           = group_sum (\<lambda>d. val (totalNetSalary d)) mp + val (netSalary p)"
    by (simp only: type_step_upsert)
qed

lemma foldl_type_step_whole:
  assumes "\<forall>entry \<in> set mp.
             whole (totalNetSalary (snd entry)) \<and> \<bar>val (totalNetSalary (snd entry))\<bar> \<le> S"
    and "\<forall>row \<in> set rows. whole (netSalary (fst row))"
    and "S + sum_list (map (\<lambda>row. \<bar>val (netSalary (fst row))\<bar>) rows) < 2 ^ 53"
    and "0 \<le> S"
  shows "(\<forall>entry \<in> set (foldl type_step mp rows). whole (totalNetSalary (snd entry))) \<and>
         group_sum (\<lambda>d. val (totalNetSalary d)) (foldl type_step mp rows)
           = group_sum (\<lambda>d. val (totalNetSalary d)) mp
               + sum_list (map (\<lambda>row. val (netSalary (fst row))) rows)"
  using assms
proof (induction rows arbitrary: mp S)
  case Nil
  then show ?case by simp
next
  case (Cons row rows)
  obtain p e where row: "row = (p, e)" by (cases row)
  have nn: "0 \<le> sum_list (map (\<lambda>row. \<bar>val (netSalary (fst row))\<bar>) rows)"
    by (rule sum_list_nonneg) auto
  from Cons.prems(3) nn have bd: "S + \<bar>val (netSalary p)\<bar> < 2 ^ 53" by (simp add: row)
  from Cons.prems(2) have w: "whole (netSalary p)" by (simp add: row)
  note st = type_step_whole[OF Cons.prems(1) w bd Cons.prems(4), of e]
  have "(\<forall>entry \<in> set (foldl type_step (type_step mp (p, e)) rows).
            whole (totalNetSalary (snd entry))) \<and>
         group_sum (\<lambda>d. val (totalNetSalary d)) (foldl type_step (type_step mp (p, e)) rows)
           = group_sum (\<lambda>d. val (totalNetSalary d)) (type_step mp (p, e))
               + sum_list (map (\<lambda>row. val (netSalary (fst row))) rows)"
  proof (rule Cons.IH[OF st(1)])
    show "\<forall>row \<in> set rows. whole (netSalary (fst row))" using Cons.prems(2) by simp
    show "S + \<bar>val (netSalary p)\<bar> + sum_list (map (\<lambda>row. \<bar>val (netSalary (fst row))\<bar>) rows)
            < 2 ^ 53"
      using Cons.prems(3) by (simp add: row)
    show "0 \<le> S + \<bar>val (netSalary p)\<bar>" using Cons.prems(4) by simp
  qed
  with st(2) show ?case by (simp add: row)
qed

lemma include_employee_all:
  "\<forall>p \<in> set ps. \<exists>e \<in> set emps. eid e = employeeId p \<Longrightarrow>
     map fst (include_employee emps ps) = ps"
proof (induction ps)
  case Nil
  then show ?case by (simp add: include_employee_def)
next
  case (Cons p ps)
  then have "employee_findUnique emps (employeeId p) \<noteq> None"
    by (auto simp: employee_findUnique_def find_None_iff)
  then obtain e where "employee_findUnique emps (employeeId p) = Some e" by blast
  with Cons show ?case by (simp add: include_employee_def)
qed

lemma findMany_period_cases:
  "payroll_findMany_period tbl m y =
     (if int32 m \<and> int32 y then Inr (period_rows tbl m y) else Inl int4_message)"
  by (simp add: payroll_findMany_period_def period_rows_def)

lemma desig_step_upsert:
  "desig_step mp (p, e) =
     upsert \<lparr> count = 0, totalBasicSalary = Num 0, totalGrossSalary = Num 0,
              totalNetSalary = Num 0, averageSalary = Num 0 \<rparr>
       (\<lambda>desigData. desigData
                     \<lparr> count := count desigData + 1,
                       totalBasicSalary := dadd (totalBasicSalary desigData) (basicSalary p),
                       totalGrossSalary := dadd (totalGrossSalary desigData) (grossSalary p),
                       totalNetSalary := dadd (totalNetSalary desigData) (netSalary p) \<rparr>)
       mp (designation e)"
  unfolding desig_step_def Let_def
  by (simp only: prod.case ensure_then_bump[unfolded Let_def])

lemma desig_step_count:
  assumes "\<forall>entry \<in> set mp. 1 \<le> count (snd entry)"
  shows "\<forall>entry \<in> set (desig_step mp row). 1 \<le> count (snd entry)"
proof
  fix entry assume "entry \<in> set (desig_step mp row)"
  then show "1 \<le> count (snd entry)"
    using assms by (cases row) (auto simp: desig_step_upsert dest!: set_upsert)
qed

lemma foldl_desig_step_count:
  "\<forall>entry \<in> set mp. 1 \<le> count (snd entry) \<Longrightarrow>
     \<forall>entry \<in> set (foldl desig_step mp rows). 1 \<le> count (snd entry)"
proof (induction rows arbitrary: mp)
  case Nil
  then show ?case by simp
next
  case (Cons row rows)
  from Cons.prems have "\<forall>entry \<in> set (desig_step mp row). 1 \<le> count (snd entry)"
    by (rule desig_step_count)
  from Cons.IH[OF this] show ?case by simp
qed

lemma monthly_loop_eq:
  "int32 y \<Longrightarrow> 1 \<le> m \<Longrightarrow>
     monthly_loop tbl y m acc
       = Some (acc @ map (\<lambda>k. monthly_entry k (period_rows tbl k y)) [m..12])"
proof (induction tbl y m acc rule: monthly_loop.induct)
  case (1 tbl y m monthlyData)
  show ?case
  proof (cases "m \<le> 12")
    case True
    with "1.prems" have "int32 m" by (simp add: int32_def)
    with "1.prems" have f: "payroll_findMany_period tbl m y = Inr (period_rows tbl m y)"
      by (simp add: findMany_period_cases)
    have u: "[m..12] = m # [m + 1..12]" using True by (simp add: upto_rec1)
    from "1.IH"[OF True f "1.prems"(1)] "1.prems"(2)
    have "monthly_loop tbl y (m + 1) (monthlyData @ [monthly_entry m (period_rows tbl m y)])
            = Some ((monthlyData @ [monthly_entry m (period_rows tbl m y)])
                  @ map (\<lambda>k. monthly_entry k (period_rows tbl k y)) [m + 1..12])"
      by simp
    then show ?thesis
      by (subst monthly_loop.simps) (simp add: True f u del: monthly_loop.simps)
  next
    case False
    then show ?thesis by (subst monthly_loop.simps) (simp del: monthly_loop.simps)
  qed
qed

lemma monthly_loop_range:
  "\<not> int32 y \<Longrightarrow> monthly_loop tbl y 1 [] = None"
  by (subst monthly_loop.simps) (simp add: findMany_period_cases del: monthly_loop.simps)

lemma months_upto: "[1..12] = months"
  by (simp add: months_def upto_rec1)

text \<open>The reports of the sample stores.\<close>

lemma sample_period_rows:
  "period_rows (payrolls sample_db1) 3 2025 = [sample_p0, sample_p1]"
  "period_rows (payrolls sample_db1) 4 2025 = []"
  by (simp_all add: period_rows_def sample_db1_def sample_p0_def sample_p1_def)

lemma sample_rows:
  "include_employee (employees sample_db1) [sample_p0, sample_p1]
     = [(sample_p0, sample_professor), (sample_p1, sample_clerk)]"
  by (simp add: include_employee_def map_filter_simps employee_findUnique_def
      sample_db1_def sample_p0_def sample_p1_def)
     (simp add: sample_professor_def sample_clerk_def)

lemma sample_payroll_values:
  "grossSalary sample_p0 = Num 115000" "netSalary sample_p0 = Num 93000"
  "basicSalary sample_p0 = Num 80000"
  "grossSalary sample_p1 = Num 1000" "netSalary sample_p1 = Num (- 4000)"
  "basicSalary sample_p1 = Num 1000"
  by (simp_all add: sample_p0_def sample_p1_def payroll_data_snapshot sample_salaries)
     (simp_all add: payroll_data_def Let_def sample_professor_def sample_clerk_def)

lemma sample_type_run:
  "getSalaryReportByType (Some 3) (Some 2025) sample_db1 = Inr ((3, 2025), sample_type_report)"
proof -
  have al: "dadd (dadd (dadd (dadd (houseRent sample_p0) (medical sample_p0))
              (transport sample_p0)) (education sample_p0)) (special sample_p0) = Num 35000"
    "dadd (dadd (dadd (dadd (tax sample_p0) (providentFund sample_p0))
              (insurance sample_p0)) (loan sample_p0)) (other sample_p0) = Num 22000"
    "dadd (dadd (dadd (dadd (houseRent sample_p1) (medical sample_p1))
              (transport sample_p1)) (education sample_p1)) (special sample_p1) = Num 0"
    "dadd (dadd (dadd (dadd (tax sample_p1) (providentFund sample_p1))
              (insurance sample_p1)) (loan sample_p1)) (other sample_p1) = Num 5000"
    by (simp_all add: sample_p0_def sample_p1_def payroll_data_def Let_def
        sample_professor_def sample_clerk_def number_eval)
  have ty: "employeeType sample_professor = TEACHER" "employeeType sample_clerk = STAFF"
    by (simp_all add: sample_professor_def sample_clerk_def)
  have "foldl type_step [] [(sample_p0, sample_professor), (sample_p1, sample_clerk)]
          = sample_type_report"
    by (simp add: type_step_upsert upsert_def Map_get_def ty al sample_payroll_values
        sample_type_report_def number_eval)
  then show ?thesis
    by (simp add: getSalaryReportByType_def findMany_period_cases sample_period_rows
        sample_rows Let_def)
qed

lemma sample_desig_run:
  "getDesignationReport (Some 3) (Some 2025) sample_db1 = Inr ((3, 2025), sample_desig_report)"
proof -
  have ds: "designation sample_professor = ''Professor''" "designation sample_clerk = ''Clerk''"
    by (simp_all add: sample_professor_def sample_clerk_def)
  have av: "ddiv (Num 93000) (Num 1) = Num 93000" "ddiv (Num (- 4000)) (Num 1) = Num (- 4000)"
    by (simp_all add: ddiv_def round64_eval)
  have "map withAverage
          (foldl desig_step [] [(sample_p0, sample_professor), (sample_p1, sample_clerk)])
          = sample_desig_report"
    by (simp add: desig_step_upsert upsert_def Map_get_def ds sample_payroll_values
        sample_desig_report_def withAverage_def av number_eval)
  then show ?thesis
    by (simp add: getDesignationReport_def findMany_period_cases sample_period_rows
        sample_rows Let_def)
qed

section \<open>Reports: the claims\<close>

text \<open>
  C4, as amended. For a year within the 32-bit INTEGER range of the column the monthly
  summary answers with exactly twelve entries, for the months 1 to 12 in ascending order.
  Each entry counts the payrolls of its month in that year and adds their salaries from 0
  in double arithmetic; an entry whose month has no payroll has totalEmployees = 0 and
  all three salary totals 0.
\<close>

theorem getMonthlySummary_twelve:
  assumes "int32 y"
  shows "\<exists>r. getMonthlySummary (Some y) db = Inr r \<and> length r = 12 \<and>
        map monthNo r = [1, 2, 3, 4, 5, 6, 7, 8, 9, 10, 11, 12] \<and>
        (\<forall>e \<in> set r.
           totalEmployees e = length (period_rows (payrolls db) (monthNo e) y) \<and>
           totalBasic e = foldl (\<lambda>sum p. dadd sum (basicSalary p)) (Num 0)
                            (period_rows (payrolls db) (monthNo e) y) \<and>
           totalGross e = foldl (\<lambda>sum p. dadd sum (grossSalary p)) (Num 0)
                            (period_rows (payrolls db) (monthNo e) y) \<and>
           totalNet e = foldl (\<lambda>sum p. dadd sum (netSalary p)) (Num 0)
                            (period_rows (payrolls db) (monthNo e) y) \<and>
           (period_rows (payrolls db) (monthNo e) y = [] \<longrightarrow>
              totalEmployees e = 0 \<and> totalBasic e = Num 0 \<and> totalGross e = Num 0 \<and>
              totalNet e = Num 0))"
proof -
  let ?r = "map (\<lambda>k. monthly_entry k (period_rows (payrolls db) k y)) months"
  from monthly_loop_eq[OF assms, of 1 "payrolls db" "[]"]
  have "monthly_loop (payrolls db) y 1 [] = Some ?r" by (simp only: months_upto append_Nil)
  then have run: "getMonthlySummary (Some y) db = Inr ?r"
    by (simp add: getMonthlySummary_def del: monthly_loop.simps)
  have len: "length ?r = 12" by (simp add: months_def)
  have mo: "map monthNo ?r = [1, 2, 3, 4, 5, 6, 7, 8, 9, 10, 11, 12]"
    by (simp add: monthly_entry_def months_def)
  have each: "\<forall>e \<in> set ?r.
           totalEmployees e = length (period_rows (payrolls db) (monthNo e) y) \<and>
           totalBasic e = foldl (\<lambda>sum p. dadd sum (basicSalary p)) (Num 0)
                            (period_rows (payrolls db) (monthNo e) y) \<and>
           totalGross e = foldl (\<lambda>sum p. dadd sum (grossSalary p)) (Num 0)
                            (period_rows (payrolls db) (monthNo e) y) \<and>
           totalNet e = foldl (\<lambda>sum p. dadd sum (netSalary p)) (Num 0)
                            (period_rows (payrolls db) (monthNo e) y) \<and>
           (period_rows (payrolls db) (monthNo e) y = [] \<longrightarrow>
              totalEmployees e = 0 \<and> totalBasic e = Num 0 \<and> totalGross e = Num 0 \<and>
              totalNet e = Num 0)"
    by (auto simp: monthly_entry_def)
  show ?thesis
    by (rule exI[of _ ?r]) (use run len mo each in \<open>intro conjI\<close>)
qed

text \<open>
  C4, at the sample store for 2025: the entry of March counts the two payrolls and adds
  93000 and -4000, the entry of April, a month without payrolls, is all zero.
\<close>

theorem getMonthlySummary_twelve_witness:
  "\<exists>r. int32 2025 \<and> getMonthlySummary (Some 2025) sample_db1 = Inr r \<and> length r = 12 \<and>
        map monthNo r = [1, 2, 3, 4, 5, 6, 7, 8, 9, 10, 11, 12] \<and>
        map netSalary (period_rows (payrolls sample_db1) 3 2025) = [Num 93000, Num (- 4000)] \<and>
        totalEmployees (r ! 2) = 2 \<and> totalNet (r ! 2) = Num 89000 \<and>
        period_rows (payrolls sample_db1) 4 2025 = [] \<and>
        totalEmployees (r ! 3) = 0 \<and> totalBasic (r ! 3) = Num 0 \<and>
        totalGross (r ! 3) = Num 0 \<and> totalNet (r ! 3) = Num 0"
proof -
  have y: "int32 2025" by simp
  from getMonthlySummary_twelve[OF y, of sample_db1] obtain r where
    run: "getMonthlySummary (Some 2025) sample_db1 = Inr r" and len: "length r = 12"
    and mo: "map monthNo r = [1, 2, 3, 4, 5, 6, 7, 8, 9, 10, 11, 12]"
    and each: "\<forall>e \<in> set r.
           totalEmployees e = length (period_rows (payrolls sample_db1) (monthNo e) 2025) \<and>
           totalBasic e = foldl (\<lambda>sum p. dadd sum (basicSalary p)) (Num 0)
                            (period_rows (payrolls sample_db1) (monthNo e) 2025) \<and>
           totalGross e = foldl (\<lambda>sum p. dadd sum (grossSalary p)) (Num 0)
                            (period_rows (payrolls sample_db1) (monthNo e) 2025) \<and>
           totalNet e = foldl (\<lambda>sum p. dadd sum (netSalary p)) (Num 0)
                            (period_rows (payrolls sample_db1) (monthNo e) 2025) \<and>
           (period_rows (payrolls sample_db1) (monthNo e) 2025 = [] \<longrightarrow>
              totalEmployees e = 0 \<and> totalBasic e = Num 0 \<and> totalGross e = Num 0 \<and>
              totalNet e = Num 0)"
    by (elim exE conjE) (rule that)
  from len have in2: "r ! 2 \<in> set r" and in3: "r ! 3 \<in> set r" by simp_all
  have "monthNo (r ! 2) = map monthNo r ! 2" "monthNo (r ! 3) = map monthNo r ! 3"
    using len by simp_all
  with mo have m2: "monthNo (r ! 2) = 3" and m3: "monthNo (r ! 3) = 4"
    by simp_all
  have march: "map netSalary (period_rows (payrolls sample_db1) 3 2025)
                 = [Num 93000, Num (- 4000)]"
    by (simp add: sample_period_rows sample_payroll_values)
  from each in2 m2
  have "totalEmployees (r ! 2) = length (period_rows (payrolls sample_db1) 3 2025)"
    "totalNet (r ! 2) = foldl (\<lambda>sum p. dadd sum (netSalary p)) (Num 0)
                            (period_rows (payrolls sample_db1) 3 2025)"
    by (metis (no_types, lifting))+
  then have a: "totalEmployees (r ! 2) = 2 \<and> totalNet (r ! 2) = Num 89000"
    by (simp add: sample_period_rows sample_payroll_values number_eval)
  from each in3 m3 sample_period_rows(2)
  have b: "totalEmployees (r ! 3) = 0 \<and> totalBasic (r ! 3) = Num 0 \<and>
           totalGross (r ! 3) = Num 0 \<and> totalNet (r ! 3) = Num 0"
    by (metis (no_types, lifting))
  show ?thesis
    by (rule exI[of _ r]) (use y run len mo march a b sample_period_rows(2) in simp)
qed

text \<open>
  C4 does not hold for any given year: a year outside the INTEGER range makes the first
  \<open>findMany\<close> throw, and the handler answers 500 with no entry at all.
\<close>

theorem getMonthlySummary_out_of_range:
  "\<not> int32 2147483648 \<and>
   getMonthlySummary (Some 2147483648) sample_db1
     = Inl (Http500 ''Failed to fetch monthly summary'')"
proof -
  have y: "\<not> int32 2147483648" by simp
  from monthly_loop_range[OF y] have "monthly_loop (payrolls sample_db1) 2147483648 1 [] = None" .
  with y show ?thesis by (simp add: getMonthlySummary_def del: monthly_loop.simps)
qed

text \<open>
  C5, as amended. In the salary report by employee type the per-group counts add up to
  the number of payrolls of the period and no type has two groups. When the net salaries
  of the period are whole numbers whose absolute values add up to less than \<open>2 ^ 53\<close>,
  every per-group totalNetSalary is a whole number and the totals summed over all groups
  equal the sum of netSalary over the payrolls of the period. This holds whenever every
  payroll refers to an employee of the store, which the foreign key of the Payroll table
  guarantees.
\<close>

theorem getSalaryReportByType_reconciles:
  assumes "getSalaryReportByType (Some mv) (Some yv) db = Inr (period, report)"
    and "\<forall>p \<in> set (payrolls db). \<exists>e \<in> set (employees db). eid e = employeeId p"
  shows "sum_list (map (\<lambda>entry. count (snd entry)) report)
           = length (period_rows (payrolls db) mv yv) \<and>
         distinct (map fst report) \<and>
         ((\<forall>p \<in> set (period_rows (payrolls db) mv yv). whole (netSalary p)) \<and>
          sum_list (map (\<lambda>p. \<bar>val (netSalary p)\<bar>) (period_rows (payrolls db) mv yv)) < 2 ^ 53
          \<longrightarrow>
          (\<forall>entry \<in> set report. whole (totalNetSalary (snd entry))) \<and>
          sum_list (map (\<lambda>entry. val (totalNetSalary (snd entry))) report)
            = sum_list (map (\<lambda>p. val (netSalary p)) (period_rows (payrolls db) mv yv)))"
proof -
  let ?ps = "period_rows (payrolls db) mv yv"
  let ?rows = "include_employee (employees db) ?ps"
  from assms(1) have report: "report = foldl type_step [] ?rows"
    by (simp add: getSalaryReportByType_def findMany_period_cases Let_def split: if_splits)
  from assms(2) have "\<forall>p \<in> set ?ps. \<exists>e \<in> set (employees db). eid e = employeeId p"
    by (simp add: period_rows_def)
  then have fst: "map fst ?rows = ?ps" by (rule include_employee_all)
  from fst have len: "length ?rows = length ?ps" by (metis length_map)
  from foldl_type_step_count[of "[]" ?rows] len
  have cnt: "sum_list (map (\<lambda>entry. count (snd entry)) report) = length ?ps"
    by (simp add: report group_sum_def)
  have dist: "distinct (map fst report)"
    unfolding report by (rule foldl_type_step_distinct) simp
  have exact: "(\<forall>entry \<in> set report. whole (totalNetSalary (snd entry))) \<and>
          sum_list (map (\<lambda>entry. val (totalNetSalary (snd entry))) report)
            = sum_list (map (\<lambda>p. val (netSalary p)) ?ps)"
    if w: "\<forall>p \<in> set ?ps. whole (netSalary p)"
      and b: "sum_list (map (\<lambda>p. \<bar>val (netSalary p)\<bar>) ?ps) < 2 ^ 53"
  proof -
    have a: "map (\<lambda>row. \<bar>val (netSalary (fst row))\<bar>) ?rows
               = map (\<lambda>p. \<bar>val (netSalary p)\<bar>) (map fst ?rows)"
      and v: "map (\<lambda>row. val (netSalary (fst row))) ?rows
               = map (\<lambda>p. val (netSalary p)) (map fst ?rows)"
      by simp_all
    have w': "\<forall>row \<in> set ?rows. whole (netSalary (fst row))"
    proof
      fix row assume "row \<in> set ?rows"
      then have "fst row \<in> set (map fst ?rows)" by simp
      with w show "whole (netSalary (fst row))" by (simp only: fst)
    qed
    have b': "0 + sum_list (map (\<lambda>row. \<bar>val (netSalary (fst row))\<bar>) ?rows) < 2 ^ 53"
      using b by (simp only: a fst add_0)
    from foldl_type_step_whole[OF _ w' b', of "[]"]
    have "(\<forall>entry \<in> set (foldl type_step [] ?rows). whole (totalNetSalary (snd entry))) \<and>
         group_sum (\<lambda>d. val (totalNetSalary d)) (foldl type_step [] ?rows)
           = sum_list (map (\<lambda>row. val (netSalary (fst row))) ?rows)"
      by (simp add: group_sum_def)
    then show ?thesis
      by (simp add: report group_sum_def v fst)
  qed
  from cnt dist exact show ?thesis by blast
qed

text \<open>
  C5, at the sample store for March 2025: the net salaries 93000 and -4000 are whole,
  the groups TEACHER and STAFF hold 93000 and -4000, and both sides are 89000.
\<close>

theorem getSalaryReportByType_reconciles_witness:
  "getSalaryReportByType (Some 3) (Some 2025) sample_db1 = Inr ((3, 2025), sample_type_report) \<and>
   map employeeId (payrolls sample_db1) = [''e1'', ''e2''] \<and>
   map eid (employees sample_db1) = [''e1'', ''e2'', ''e3''] \<and>
   map netSalary (period_rows (payrolls sample_db1) 3 2025) = [Num 93000, Num (- 4000)] \<and>
   map totalNetSalary (map snd sample_type_report) = [Num 93000, Num (- 4000)] \<and>
   sum_list (map val (map totalNetSalary (map snd sample_type_report))) = 89000 \<and>
   sum_list (map count (map snd sample_type_report)) = 2 \<and>
   distinct (map fst sample_type_report)"
proof -
  have ids: "map employeeId (payrolls sample_db1) = [''e1'', ''e2'']"
    "map eid (employees sample_db1) = [''e1'', ''e2'', ''e3'']"
    by (simp_all add: sample_db1_def sample_db_def sample_professor_def sample_clerk_def
        sample_retired_def)
  have fk: "\<forall>p \<in> set (payrolls sample_db1). \<exists>e \<in> set (employees sample_db1). eid e = employeeId p"
    by (simp add: sample_db1_def sample_db_def sample_professor_def sample_clerk_def
        sample_retired_def)
  have ps: "map netSalary (period_rows (payrolls sample_db1) 3 2025) = [Num 93000, Num (- 4000)]"
    by (simp add: sample_period_rows sample_payroll_values)
  have w: "\<forall>p \<in> set (period_rows (payrolls sample_db1) 3 2025). whole (netSalary p)"
    by (simp add: sample_period_rows sample_payroll_values whole_def)
  have b: "sum_list (map (\<lambda>p. \<bar>val (netSalary p)\<bar>) (period_rows (payrolls sample_db1) 3 2025))
             < 2 ^ 53"
    by (simp add: sample_period_rows sample_payroll_values)
  from getSalaryReportByType_reconciles[OF sample_type_run fk] w b
  have "sum_list (map (\<lambda>entry. count (snd entry)) sample_type_report)
           = length (period_rows (payrolls sample_db1) 3 2025)"
    "distinct (map fst sample_type_report)"
    "sum_list (map (\<lambda>entry. val (totalNetSalary (snd entry))) sample_type_report)
            = sum_list (map (\<lambda>p. val (netSalary p)) (period_rows (payrolls sample_db1) 3 2025))"
    by blast+
  then have "sum_list (map count (map snd sample_type_report)) = 2"
    "distinct (map fst sample_type_report)"
    "sum_list (map val (map totalNetSalary (map snd sample_type_report))) = 89000"
    by (simp_all add: sample_period_rows sample_payroll_values comp_def)
  moreover have "map totalNetSalary (map snd sample_type_report) = [Num 93000, Num (- 4000)]"
    by (simp add: sample_type_report_def)
  ultimately show ?thesis using sample_type_run ids ps by simp
qed

text \<open>
  C5 does not hold for amounts with cents. The store has the net salaries 0.1 (a
  teacher), 0.1 (staff) and 0.4 (a teacher) for March 2025, as doubles. The group of the
  teachers holds 0.1 + 0.4, rounded to the double 0.5; the groups add up to 0.6 and the
  records to 0.6000000000000001 in double arithmetic, and the exact sums differ as well.
\<close>

theorem getSalaryReportByType_cents:
  "getSalaryReportByType (Some 3) (Some 2025) cents_report_db
     = Inr ((3, 2025), cents_type_report) \<and>
   is_double d01 \<and> is_double d04 \<and>
   map employeeId (payrolls cents_report_db) = map eid (employees cents_report_db) \<and>
   map netSalary (period_rows (payrolls cents_report_db) 3 2025) = [d01, d01, d04] \<and>
   map totalNetSalary (map snd cents_type_report) = [Num (1 / 2), d01] \<and>
   foldl dadd (Num 0) [Num (1 / 2), d01] = Num (5404319552844595 / 9007199254740992) \<and>
   foldl dadd (Num 0) [d01, d01, d04] = Num (1351079888211149 / 2251799813685248) \<and>
   sum_list (map val (map totalNetSalary (map snd cents_type_report)))
     \<noteq> sum_list (map val (map netSalary (period_rows (payrolls cents_report_db) 3 2025)))"
proof -
  have rows: "period_rows (payrolls cents_report_db) 3 2025
                = [cents_net ''q0'' ''t1'' d01, cents_net ''q1'' ''s1'' d01,
                   cents_net ''q2'' ''t2'' d04]"
    by (simp add: period_rows_def cents_report_db_def cents_net_def)
  have inc: "include_employee (employees cents_report_db)
               [cents_net ''q0'' ''t1'' d01, cents_net ''q1'' ''s1'' d01,
                cents_net ''q2'' ''t2'' d04]
             = [(cents_net ''q0'' ''t1'' d01, cents_employee ''t1'' TEACHER d01 (Num 0) (Num 0)),
                (cents_net ''q1'' ''s1'' d01, cents_employee ''s1'' STAFF d01 (Num 0) (Num 0)),
                (cents_net ''q2'' ''t2'' d04, cents_employee ''t2'' TEACHER d04 (Num 0) (Num 0))]"
    by (simp add: include_employee_def map_filter_simps employee_findUnique_def
        cents_report_db_def)
       (simp add: cents_net_def cents_employee_def)
  have z: "dadd (Num 0) (Num 0) = Num 0" by (simp add: number_eval)
  have s1: "dadd (Num 0) d01 = d01" "dadd (Num 0) d04 = d04"
    by (simp_all add: d01_def d04_def number_eval)
  have s2: "dadd d01 d04 = Num (1 / 2)"
    by (simp add: d01_def d04_def number_eval)
  have fold: "foldl type_step []
          [(cents_net ''q0'' ''t1'' d01, cents_employee ''t1'' TEACHER d01 (Num 0) (Num 0)),
           (cents_net ''q1'' ''s1'' d01, cents_employee ''s1'' STAFF d01 (Num 0) (Num 0)),
           (cents_net ''q2'' ''t2'' d04, cents_employee ''t2'' TEACHER d04 (Num 0) (Num 0))]
          = cents_type_report"
    by (simp only: foldl.simps type_step_upsert)
       (simp add: upsert_def Map_get_def cents_net_def cents_employee_def
          cents_type_report_def z s1 s2)
  have run: "getSalaryReportByType (Some 3) (Some 2025) cents_report_db
               = Inr ((3, 2025), cents_type_report)"
    by (simp add: getSalaryReportByType_def findMany_period_cases rows inc fold Let_def
        del: foldl.simps)
  have dbl: "is_double d01" "is_double d04"
    by (simp_all add: is_double_def d01_def d04_def round64_eval)
  have fk: "map employeeId (payrolls cents_report_db) = map eid (employees cents_report_db)"
    by (simp add: cents_report_db_def cents_net_def cents_employee_def)
  have nets: "map netSalary (period_rows (payrolls cents_report_db) 3 2025) = [d01, d01, d04]"
    by (simp add: rows cents_net_def)
  have tots: "map totalNetSalary (map snd cents_type_report) = [Num (1 / 2), d01]"
    by (simp add: cents_type_report_def)
  have f1: "foldl dadd (Num 0) [Num (1 / 2), d01] = Num (5404319552844595 / 9007199254740992)"
    by (simp add: d01_def number_eval)
  have f2: "foldl dadd (Num 0) [d01, d01, d04] = Num (1351079888211149 / 2251799813685248)"
    by (simp add: d01_def d04_def number_eval)
  have ne: "sum_list (map val (map totalNetSalary (map snd cents_type_report)))
     \<noteq> sum_list (map val (map netSalary (period_rows (payrolls cents_report_db) 3 2025)))"
    by (simp only: tots nets) (simp add: d01_def d04_def)
  from run dbl fk nets tots f1 f2 ne show ?thesis by (intro conjI)
qed



end
